theory Spec2Isabelle
  imports Main "HOL-Library.Sublist"
begin

section \<open>Strings\<close>

text \<open>
  The viewer is a browser script, kept in two versions: \<^verbatim>\<open>script.js\<close> and the
  plainer \<^verbatim>\<open>part_000\<close>. A definition named after a function of the script is
  the function of \<^verbatim>\<open>script.js\<close>; the function of \<^verbatim>\<open>part_000\<close> carries the
  suffix \<open>_p000\<close> where the two differ.

  Strings are modelled as \<^typ>\<open>string\<close>; a character outside ASCII stands as its
  UTF-8 bytes, as it does in the source file. The character classes below are the
  ASCII ones: for a pattern, white space is tab, line feed, vertical tab, form
  feed, carriage return and space, and a line terminator is line feed or carriage
  return; \<^verbatim>\<open>toLowerCase\<close> maps the letters A to Z. On ASCII text they are the
  classes and the function of JavaScript; letters, white space and line
  separators beyond ASCII are outside them, and the theorems about
  \<^verbatim>\<open>toLowerCase\<close> and about the patterns are stated for ASCII text (\<open>ascii\<close>).
\<close>

definition ascii :: "string \<Rightarrow> bool" where
  "ascii s = list_all (\<lambda>c. (of_char c :: nat) < 128) s"

definition is_line_terminator :: "char \<Rightarrow> bool" where
  "is_line_terminator c = (c = CHR 0x0A \<or> c = CHR 0x0D)"

definition is_digit :: "char \<Rightarrow> bool" where
  "is_digit c = (let n = (of_char c :: nat) in 48 \<le> n \<and> n \<le> 57)"

definition is_lower :: "char \<Rightarrow> bool" where
  "is_lower c = (let n = (of_char c :: nat) in 97 \<le> n \<and> n \<le> 122)"

definition is_upper :: "char \<Rightarrow> bool" where
  "is_upper c = (let n = (of_char c :: nat) in 65 \<le> n \<and> n \<le> 90)"

definition is_word :: "char \<Rightarrow> bool" where
  "is_word c = (is_lower c \<or> is_upper c \<or> is_digit c \<or> c = CHR ''_'')"

definition is_space :: "char \<Rightarrow> bool" where
  "is_space c = (let n = (of_char c :: nat) in (9 \<le> n \<and> n \<le> 13) \<or> n = 32)"

definition any_char :: "char \<Rightarrow> bool" where
  "any_char c = True"

definition dot :: "char \<Rightarrow> bool" where
  "dot c = (\<not> is_line_terminator c)"

definition isnt :: "char \<Rightarrow> char \<Rightarrow> bool" where
  "isnt x c = (c \<noteq> x)"

definition lower_char :: "char \<Rightarrow> char" where
  "lower_char c = (if is_upper c then char_of ((of_char c :: nat) + 32) else c)"

definition toLowerCase :: "string \<Rightarrow> string" where
  "toLowerCase s = map lower_char s"

fun match_prefix :: "string \<Rightarrow> string \<Rightarrow> string option" where
  "match_prefix [] s = Some s"
| "match_prefix (c # cs) [] = None"
| "match_prefix (c # cs) (x # xs) = (if c = x then match_prefix cs xs else None)"

text \<open>
  \<^verbatim>\<open>trim\<close> strips the white space and the line terminators of JavaScript from both
  ends. In UTF-8 these are the six ASCII characters and the codes of the no-break
  space, of the byte order mark, of the line and paragraph separators and of the
  space separators of Unicode.
\<close>

definition white_space_codes :: "string list" where
  "white_space_codes =
     [[CHR 0x09], [CHR 0x0A], [CHR 0x0B], [CHR 0x0C], [CHR 0x0D], [CHR 0x20],
      [CHR 0xC2, CHR 0xA0], [CHR 0xE1, CHR 0x9A, CHR 0x80],
      [CHR 0xE2, CHR 0x80, CHR 0x80], [CHR 0xE2, CHR 0x80, CHR 0x81],
      [CHR 0xE2, CHR 0x80, CHR 0x82], [CHR 0xE2, CHR 0x80, CHR 0x83],
      [CHR 0xE2, CHR 0x80, CHR 0x84], [CHR 0xE2, CHR 0x80, CHR 0x85],
      [CHR 0xE2, CHR 0x80, CHR 0x86], [CHR 0xE2, CHR 0x80, CHR 0x87],
      [CHR 0xE2, CHR 0x80, CHR 0x88], [CHR 0xE2, CHR 0x80, CHR 0x89],
      [CHR 0xE2, CHR 0x80, CHR 0x8A], [CHR 0xE2, CHR 0x80, CHR 0xA8],
      [CHR 0xE2, CHR 0x80, CHR 0xA9], [CHR 0xE2, CHR 0x80, CHR 0xAF],
      [CHR 0xE2, CHR 0x81, CHR 0x9F], [CHR 0xE3, CHR 0x80, CHR 0x80],
      [CHR 0xEF, CHR 0xBB, CHR 0xBF]]"

text \<open>\<open>strip_codes ws s\<close> removes from the front of \<open>s\<close> every code of the list \<open>ws\<close>.\<close>

function strip_codes :: "string list \<Rightarrow> string \<Rightarrow> string" where
  "strip_codes ws s =
     (case find (\<lambda>w. w \<noteq> [] \<and> match_prefix w s \<noteq> None) ws of
        None \<Rightarrow> s
      | Some w \<Rightarrow> strip_codes ws (drop (length w) s))"
  by pat_completeness auto
termination
proof (relation "measure (\<lambda>(ws, s). length s)")
  show "wf (measure (\<lambda>(ws, s). length s))" by simp
next
  fix ws :: "string list" and s w :: string
  assume "find (\<lambda>w. w \<noteq> [] \<and> match_prefix w s \<noteq> None) ws = Some w"
  then have w: "w \<noteq> []" and m: "match_prefix w s \<noteq> None"
    by (auto simp: find_Some_iff)
  have "s \<noteq> []" using w m by (cases w; cases s) auto
  with w show "((ws, drop (length w) s), (ws, s)) \<in> measure (\<lambda>(ws, s). length s)"
    by simp
qed

definition trim :: "string \<Rightarrow> string" where
  "trim s = rev (strip_codes (map rev white_space_codes) (rev (strip_codes white_space_codes s)))"

definition startsWith :: "string \<Rightarrow> string \<Rightarrow> bool" where
  "startsWith s t = (match_prefix t s \<noteq> None)"

fun str_includes :: "string \<Rightarrow> string \<Rightarrow> bool" where
  "str_includes [] t = (t = [])"
| "str_includes (x # xs) t = (startsWith (x # xs) t \<or> str_includes xs t)"

text \<open>A JavaScript condition on a string is false exactly for the empty string.\<close>

definition truthy :: "string \<Rightarrow> bool" where
  "truthy s = (s \<noteq> [])"

section \<open>Regular expressions\<close>

text \<open>
  The script transforms text with \<^verbatim>\<open>String.prototype.replace\<close> and regular
  expression literals. A pattern is a term of type \<open>re\<close>; \<open>rmatch\<close> is the
  backtracking matcher of the language: it returns every way the pattern can
  match at the current position, in the order in which the engine tries them, so
  the head of the list is the match the engine reports. A matcher state is the
  character before the position (for line starts and word boundaries), the rest of the
  input, and the capture groups set so far.
\<close>

type_synonym caps = "(nat \<times> string) list"
type_synonym mstate = "char option \<times> string \<times> caps"

datatype re =
    Eps
  | Chr char
  | Cls "char \<Rightarrow> bool"
  | Seq re re
  | Alt re re
  | Star re
  | Lazy re
  | Grp nat re
  | Bref nat
  | InputStart
  | InputEnd
  | LineStart
  | LineEnd
  | WordB
  | NotAhead re

definition consumed :: "string \<Rightarrow> string \<Rightarrow> string" where
  "consumed s s' = take (length s - length s') s"

definition last_char :: "char option \<Rightarrow> string \<Rightarrow> char option" where
  "last_char p t = (if t = [] then p else Some (last t))"

definition word_at :: "char option \<Rightarrow> bool" where
  "word_at p = (case p of None \<Rightarrow> False | Some c \<Rightarrow> is_word c)"

text \<open>
  \<open>Star\<close> is the greedy \<^verbatim>\<open>*\<close> and \<open>Lazy\<close> the reluctant \<^verbatim>\<open>*?\<close>; an
  iteration that consumes nothing is not repeated. \<open>InputStart\<close> and
  \<open>InputEnd\<close> are \<^verbatim>\<open>^\<close> and \<^verbatim>\<open>$\<close> without the \<^verbatim>\<open>m\<close> flag,
  \<open>LineStart\<close> and \<open>LineEnd\<close> with it. \<open>Bref n\<close> is a back reference, which matches
  the empty string while group \<open>n\<close> is unset, and \<open>NotAhead\<close> is \<^verbatim>\<open>(?!...)\<close>.
\<close>

fun rmatch :: "re \<Rightarrow> mstate \<Rightarrow> mstate list" where
  "rmatch Eps st = [st]"
| "rmatch (Chr c) (p, s, g) =
     (case s of [] \<Rightarrow> [] | x # xs \<Rightarrow> if x = c then [(Some x, xs, g)] else [])"
| "rmatch (Cls f) (p, s, g) =
     (case s of [] \<Rightarrow> [] | x # xs \<Rightarrow> if f x then [(Some x, xs, g)] else [])"
| "rmatch (Seq a b) st = concat (map (rmatch b) (rmatch a st))"
| "rmatch (Alt a b) st = rmatch a st @ rmatch b st"
| "rmatch (Star a) (p, s, g) =
     concat (map (\<lambda>(p', s', g'). if length s' < length s then rmatch (Star a) (p', s', g') else [])
                 (rmatch a (p, s, g))) @ [(p, s, g)]"
| "rmatch (Lazy a) (p, s, g) =
     (p, s, g) #
     concat (map (\<lambda>(p', s', g'). if length s' < length s then rmatch (Lazy a) (p', s', g') else [])
                 (rmatch a (p, s, g)))"
| "rmatch (Grp n a) (p, s, g) =
     map (\<lambda>(p', s', g'). (p', s', (n, consumed s s') # g')) (rmatch a (p, s, g))"
| "rmatch (Bref n) (p, s, g) =
     (case map_of g n of
        None \<Rightarrow> [(p, s, g)]
      | Some t \<Rightarrow> (case match_prefix t s of None \<Rightarrow> [] | Some s' \<Rightarrow> [(last_char p t, s', g)]))"
| "rmatch InputStart (p, s, g) = (if p = None then [(p, s, g)] else [])"
| "rmatch InputEnd (p, s, g) = (if s = [] then [(p, s, g)] else [])"
| "rmatch LineStart (p, s, g) =
     (case p of None \<Rightarrow> [(p, s, g)] | Some c \<Rightarrow> if is_line_terminator c then [(p, s, g)] else [])"
| "rmatch LineEnd (p, s, g) =
     (case s of [] \<Rightarrow> [(p, s, g)] | x # xs \<Rightarrow> if is_line_terminator x then [(p, s, g)] else [])"
| "rmatch WordB (p, s, g) =
     (if word_at p \<noteq> word_at (case s of [] \<Rightarrow> None | x # xs \<Rightarrow> Some x) then [(p, s, g)] else [])"
| "rmatch (NotAhead a) st = (if rmatch a st = [] then [st] else [])"

fun lit :: "string \<Rightarrow> re" where
  "lit [] = Eps"
| "lit (c # cs) = Seq (Chr c) (lit cs)"

definition seqs :: "re list \<Rightarrow> re" where
  "seqs rs = foldr Seq rs Eps"

fun alts :: "re list \<Rightarrow> re" where
  "alts [] = Eps"
| "alts [r] = r"
| "alts (r # rs) = Alt r (alts rs)"

definition plus :: "re \<Rightarrow> re" where
  "plus r = Seq r (Star r)"

definition opt :: "re \<Rightarrow> re" where
  "opt r = Alt r Eps"

text \<open>
  \<open>replace_all r f s\<close> is \<^verbatim>\<open>s.replace(/r/g, f)\<close>: the input is scanned from the
  left, the first position where the pattern matches is replaced by \<open>f\<close> of the
  matched text and the capture groups, and the scan goes on behind the match (one
  character further when the match is empty). \<open>grp g n\<close> is \<^verbatim>\<open>$n\<close> in a
  replacement text: the text of group \<open>n\<close>, empty when the group is unset.
\<close>

function replace_from :: "re \<Rightarrow> (string \<Rightarrow> caps \<Rightarrow> string) \<Rightarrow> char option \<Rightarrow> string \<Rightarrow> string" where
  "replace_from r f p s =
     (case rmatch r (p, s, []) of
        [] \<Rightarrow> (case s of [] \<Rightarrow> [] | c # cs \<Rightarrow> c # replace_from r f (Some c) cs)
      | (p', s', g) # _ \<Rightarrow>
          f (consumed s s') g @
          (if length s' < length s then replace_from r f p' s'
           else (case s of [] \<Rightarrow> [] | c # cs \<Rightarrow> c # replace_from r f (Some c) cs)))"
  by pat_completeness auto
termination
  by (relation "measure (\<lambda>(r, f, p, s). length s)") auto

definition replace_all :: "re \<Rightarrow> (string \<Rightarrow> caps \<Rightarrow> string) \<Rightarrow> string \<Rightarrow> string" where
  "replace_all r f s = replace_from r f None s"

definition grp :: "caps \<Rightarrow> nat \<Rightarrow> string" where
  "grp g n = (case map_of g n of None \<Rightarrow> [] | Some t \<Rightarrow> t)"

text \<open>
  \<open>replace_first r f s\<close> is \<^verbatim>\<open>s.replace(/r/, f)\<close> without the \<^verbatim>\<open>g\<close> flag: only
  the first match from the left is replaced.
\<close>

fun replace_first_from :: "re \<Rightarrow> (string \<Rightarrow> caps \<Rightarrow> string) \<Rightarrow> char option \<Rightarrow> string \<Rightarrow> string" where
  "replace_first_from r f p [] =
     (case rmatch r (p, [], []) of [] \<Rightarrow> [] | (p', s', g) # _ \<Rightarrow> f (consumed [] s') g @ s')"
| "replace_first_from r f p (c # cs) =
     (case rmatch r (p, c # cs, []) of
        [] \<Rightarrow> c # replace_first_from r f (Some c) cs
      | (p', s', g) # _ \<Rightarrow> f (consumed (c # cs) s') g @ s')"

definition replace_first :: "re \<Rightarrow> (string \<Rightarrow> caps \<Rightarrow> string) \<Rightarrow> string \<Rightarrow> string" where
  "replace_first r f s = replace_first_from r f None s"
section \<open>Markdown rendering\<close>

subsection \<open>Subsection ids\<close>

text \<open>
  \<^verbatim>\<open>createSubsectionId(title)\<close> is
  \<^verbatim>\<open>title.toLowerCase().replace(/[^a-z0-9]+/g, '-').replace(/(^-|-$)/g, '')\<close>.
\<close>

definition not_alnum :: "char \<Rightarrow> bool" where
  "not_alnum c = (\<not> (is_lower c \<or> is_digit c))"

definition re_non_alnum_run :: re where
  "re_non_alnum_run = plus (Cls not_alnum)"

definition re_edge_hyphen :: re where
  "re_edge_hyphen = Grp 1 (Alt (Seq InputStart (Chr CHR ''-'')) (Seq (Chr CHR ''-'') InputEnd))"

definition createSubsectionId :: "string \<Rightarrow> string" where
  "createSubsectionId title =
     replace_all re_edge_hyphen (\<lambda>m g. [])
       (replace_all re_non_alnum_run (\<lambda>m g. ''-'') (toLowerCase title))"

subsection \<open>Escaping and highlighting\<close>

text \<open>
  \<^verbatim>\<open>escapeHtml\<close> sets the text as the text content of a fresh element and reads
  its \<^verbatim>\<open>innerHTML\<close> back; the browser serialises a text node by writing
  \<^verbatim>\<open>&amp;\<close>, \<^verbatim>\<open>&lt;\<close>, \<^verbatim>\<open>&gt;\<close> for the three markup characters and
  \<^verbatim>\<open>&nbsp;\<close> for a no-break space (the bytes C2 A0).
\<close>

definition escape_char :: "char \<Rightarrow> string" where
  "escape_char c =
     (if c = CHR ''&'' then ''&amp;'' else if c = CHR ''<'' then ''&lt;''
      else if c = CHR ''>'' then ''&gt;'' else [c])"

fun escapeHtml :: "string \<Rightarrow> string" where
  "escapeHtml [] = []"
| "escapeHtml [c] = escape_char c"
| "escapeHtml (c # d # cs) =
     (if c = CHR 0xC2 \<and> d = CHR 0xA0 then ''&nbsp;'' @ escapeHtml cs
      else escape_char c @ escapeHtml (d # cs))"

definition lua_keywords :: "string list" where
  "lua_keywords = [''local'', ''function'', ''end'', ''if'', ''then'', ''else'', ''elseif'',
     ''while'', ''for'', ''do'', ''repeat'', ''until'', ''break'', ''return'', ''and'', ''or'',
     ''not'', ''true'', ''false'', ''nil'']"

definition js_keywords :: "string list" where
  "js_keywords = [''function'', ''const'', ''let'', ''var'', ''if'', ''else'', ''for'', ''while'',
     ''do'', ''switch'', ''case'', ''break'', ''continue'', ''return'', ''try'', ''catch'',
     ''finally'', ''class'', ''extends'', ''import'', ''export'', ''default'', ''async'',
     ''await'', ''true'', ''false'', ''null'', ''undefined'']"

definition re_keyword :: "string list \<Rightarrow> re" where
  "re_keyword ws = seqs [WordB, Grp 1 (alts (map lit ws)), WordB]"

text \<open>The string pattern, with the quote characters that open a string as parameter.\<close>

definition re_string :: "string \<Rightarrow> re" where
  "re_string qs =
     seqs [Grp 1 (Cls (\<lambda>c. c \<in> set qs)),
           Grp 2 (Lazy (Alt (Seq (Chr (CHR 0x5C)) (Cls dot))
                            (Seq (NotAhead (Bref 1)) (Cls (isnt (CHR 0x5C)))))),
           Bref 1]"

definition re_lua_comment :: re where
  "re_lua_comment = Grp 1 (seqs [lit ''--'', Star (Cls dot), LineEnd])"

definition re_js_comment :: re where
  "re_js_comment =
     Grp 1 (Alt (seqs [lit ''//'', Star (Cls dot), LineEnd])
                (seqs [lit ''/*'', Lazy (Cls any_char), lit ''*/'']))"

definition re_number :: re where
  "re_number = seqs [WordB, plus (Cls is_digit), opt (Chr CHR ''.''), Star (Cls is_digit), WordB]"

text \<open>
  Three replacement operands of the stored \<^verbatim>\<open>script.js\<close> are not string literals:
  between their quotes stand four lines of another function, with line feeds and
  quotes of their own. They are the operand of the first list wrapper of
  \<^verbatim>\<open>renderMarkdown\<close> and the operands of the two number patterns of
  \<^verbatim>\<open>highlightCode\<close>. What stood there is not in the file, so the three operands
  are parameters of the model, each an arbitrary function of the matched text and
  its groups; every theorem about \<^verbatim>\<open>script.js\<close> below holds for all their values.
\<close>

type_synonym replacement = "string \<Rightarrow> caps \<Rightarrow> string"

record operands =
  ul_operand :: replacement
  lua_number_operand :: replacement
  js_number_operand :: replacement

definition span_keyword :: "string \<Rightarrow> caps \<Rightarrow> string" where
  \<open>span_keyword m g = ''<span class="keyword">'' @ grp g 1 @ ''</span>''\<close>

definition span_string :: "string \<Rightarrow> caps \<Rightarrow> string" where
  \<open>span_string m g = ''<span class="string">'' @ grp g 1 @ grp g 2 @ grp g 1 @ ''</span>''\<close>

definition span_comment :: "string \<Rightarrow> caps \<Rightarrow> string" where
  \<open>span_comment m g = ''<span class="comment">'' @ grp g 1 @ ''</span>''\<close>

definition highlightCode :: "operands \<Rightarrow> string \<Rightarrow> string \<Rightarrow> string" where
  \<open>highlightCode L code language =
     (let escaped = escapeHtml code in
      if language = ''lua'' then
        replace_all re_number (lua_number_operand L)
          (replace_all re_lua_comment span_comment
            (replace_all (re_string [CHR 0x22, CHR 0x27]) span_string
              (replace_all (re_keyword lua_keywords) span_keyword escaped)))
      else if language = ''javascript'' \<or> language = ''js'' then
        replace_all re_number (js_number_operand L)
          (replace_all re_js_comment span_comment
            (replace_all (re_string [CHR 0x22, CHR 0x27, CHR 0x60]) span_string
              (replace_all (re_keyword js_keywords) span_keyword escaped)))
      else escaped)\<close>

subsection \<open>The pipeline\<close>

definition nl :: char where
  "nl = CHR 0x0A"

definition re_fence :: re where
  "re_fence =
     seqs [lit ''```'', opt (Grp 1 (plus (Cls is_word))), Chr nl,
           Grp 2 (Lazy (Cls any_char)), lit ''```'']"

text \<open>
  The callback of the fence pattern. Its second argument is \<^verbatim>\<open>undefined\<close> when
  no language follows the fence, and the language is then \<^verbatim>\<open>text\<close>.
\<close>

definition fence_replacement :: "operands \<Rightarrow> string \<Rightarrow> caps \<Rightarrow> string" where
  \<open>fence_replacement L m g =
     (let language = (case map_of g 1 of None \<Rightarrow> ''text'' | Some lang \<Rightarrow> if truthy lang then lang else ''text'');
          highlightedCode = highlightCode L (trim (grp g 2)) language
      in ''\<newline>'' @
         ''                    <div class="code-block" data-language="'' @ language @ ''">\<newline>'' @
         ''                        <div class="code-header">\<newline>'' @
         ''                            <span class="code-lang">'' @ language @ ''</span>\<newline>'' @
         ''                        </div>\<newline>'' @
         ''                        <pre><code class="language-'' @ language @ ''">'' @ highlightedCode @
         ''</code></pre>\<newline>'' @
         ''                    </div>\<newline>'' @
         ''                '')\<close>

definition re_inline_code :: re where
  "re_inline_code = seqs [Chr CHR 0x60, Grp 1 (plus (Cls (isnt (CHR 0x60)))), Chr CHR 0x60]"

definition re_bold :: re where
  "re_bold = seqs [lit ''**'', Grp 1 (plus (Cls (isnt CHR ''*''))), lit ''**'']"

definition re_italic :: re where
  "re_italic = seqs [Chr CHR ''*'', Grp 1 (plus (Cls (isnt CHR ''*''))), Chr CHR ''*'']"

definition re_line :: "string \<Rightarrow> re" where
  "re_line marker = seqs [LineStart, lit marker, Grp 1 (plus (Cls dot)), LineEnd]"

definition re_link :: re where
  "re_link =
     seqs [Chr CHR ''['', Grp 1 (plus (Cls (isnt CHR '']''))), lit '']('',
           Grp 2 (plus (Cls (isnt CHR '')''))), Chr CHR '')'']"

definition re_ordered_item :: re where
  "re_ordered_item =
     seqs [LineStart, plus (Cls is_digit), lit ''. '', Grp 1 (plus (Cls dot)), LineEnd]"

definition re_list_run :: re where
  "re_list_run =
     plus (Grp 1 (seqs [lit ''<li>'', Star (Cls any_char), lit ''</li>'', Star (Cls is_space)]))"

definition re_rule :: re where
  "re_rule = seqs [LineStart, lit ''---'', LineEnd]"

definition ol_replacement :: "string \<Rightarrow> caps \<Rightarrow> string" where
  "ol_replacement m g = (if str_includes m ''<ul>'' then m else ''<ol>'' @ m @ ''</ol>'')"

definition tag :: "string \<Rightarrow> string \<Rightarrow> caps \<Rightarrow> string" where
  "tag t m g = ''<'' @ t @ ''>'' @ grp g 1 @ ''</'' @ t @ ''>''"

definition inline_code_replacement :: "string \<Rightarrow> caps \<Rightarrow> string" where
  \<open>inline_code_replacement m g = ''<code class="inline-code">'' @ grp g 1 @ ''</code>''\<close>

definition link_replacement :: "string \<Rightarrow> caps \<Rightarrow> string" where
  \<open>link_replacement m g =
     ''<a href="'' @ grp g 2 @ ''" target="_blank" rel="noopener noreferrer">'' @ grp g 1 @ ''</a>''\<close>

text \<open>The stages of \<^verbatim>\<open>renderMarkdown\<close>, in the order of the source.\<close>

definition markdown_stages :: "operands \<Rightarrow> (string \<Rightarrow> string) list" where
  "markdown_stages L =
    [replace_all re_fence (fence_replacement L),
     replace_all re_inline_code inline_code_replacement,
     replace_all re_bold (tag ''strong''),
     replace_all re_italic (tag ''em''),
     replace_all (re_line ''### '') (tag ''h4''),
     replace_all (re_line ''## '') (tag ''h3''),
     replace_all (re_line ''# '') (tag ''h2''),
     replace_all re_link link_replacement,
     replace_all (re_line ''- '') (tag ''li''),
     replace_all re_list_run (ul_operand L),
     replace_all re_ordered_item (tag ''li''),
     replace_all re_list_run ol_replacement,
     replace_all (re_line ''> '') (tag ''blockquote''),
     replace_all re_rule (\<lambda>m g. ''<hr>''),
     replace_all (lit [nl, nl]) (\<lambda>m g. ''</p><p>''),
     replace_all (Chr nl) (\<lambda>m g. ''<br>'')]"

definition renderMarkdown :: "operands \<Rightarrow> string \<Rightarrow> string" where
  "renderMarkdown L content =
     (if \<not> truthy content then []
      else let html = fold (\<lambda>stage h. stage h) (markdown_stages L) content
           in if \<not> startsWith html ''<'' then ''<p>'' @ html @ ''</p>'' else html)"

subsection \<open>The pipeline of \<^verbatim>\<open>part_000\<close>\<close>

text \<open>
  The \<^verbatim>\<open>renderMarkdown\<close> of \<^verbatim>\<open>part_000\<close> has seven stages, all with whole operands. Its
  fence callback escapes the code itself, its list wrapper replaces the first
  match only, with a dot that matches line terminators too, and it neither tests
  for an empty text nor wraps the result in a paragraph.
\<close>

definition fence_replacement_p000 :: "string \<Rightarrow> caps \<Rightarrow> string" where
  \<open>fence_replacement_p000 m g =
     (let language = (case map_of g 1 of None \<Rightarrow> ''Code'' | Some lang \<Rightarrow> if truthy lang then lang else ''Code'')
      in ''\<newline>'' @
         ''                    <div class="code-block">\<newline>'' @
         ''                        <div class="code-header">\<newline>'' @
         ''                            <span class="code-lang">'' @ language @ ''</span>\<newline>'' @
         ''                            <button class="copy-btn" onclick="copyCode(this)">Copy</button>\<newline>'' @
         ''                        </div>\<newline>'' @
         ''                        <pre><code>'' @ escapeHtml (trim (grp g 2)) @ ''</code></pre>\<newline>'' @
         ''                    </div>\<newline>'' @
         ''                '')\<close>

definition re_list_first :: re where
  "re_list_first = Grp 1 (seqs [lit ''<li>'', Star (Cls any_char), lit ''</li>''])"

definition markdown_stages_p000 :: "(string \<Rightarrow> string) list" where
  "markdown_stages_p000 =
    [replace_all re_fence fence_replacement_p000,
     replace_all re_inline_code (tag ''code''),
     replace_all re_bold (tag ''strong''),
     replace_all (re_line ''- '') (tag ''li''),
     replace_first re_list_first (tag ''ul''),
     replace_all (lit [nl, nl]) (\<lambda>m g. ''</p><p>''),
     replace_all (Chr nl) (\<lambda>m g. ''<br>'')]"

definition renderMarkdown_p000 :: "string \<Rightarrow> string" where
  "renderMarkdown_p000 content = fold (\<lambda>stage h. stage h) markdown_stages_p000 content"
section \<open>Documents\<close>

text \<open>
  The document is the JSON object \<^verbatim>\<open>{ sections: [ {id, title, content, subsections} ] }\<close>.
  The script tests \<^verbatim>\<open>section.subsections\<close> before it uses it, so the field is
  optional.
\<close>

record doc_subsection =
  subsection_title :: string
  subsection_content :: string

record doc_section =
  section_id :: string
  section_title :: string
  section_content :: string
  subsections :: "doc_subsection list option"

record docs_json =
  sections :: "doc_section list"

subsection \<open>The embedded sample document\<close>

definition sample_getting_started :: doc_section where
  \<open>sample_getting_started =
   \<lparr>section_id = ''getting-started'', section_title = ''Getting Started'',
    section_content =
      ''Welcome to WebhookLib documentation. This library provides production-quality Discord webhook functionality for Roblox.'',
    subsections = Some
     [\<lparr>subsection_title = ''Installation'',
        subsection_content =
          ''To install WebhookLib in your Roblox project:\<newline>'' @
          ''\<newline>'' @
          ''```lua\<newline>'' @
          ''-- Method 1: Direct require\<newline>'' @
          ''local WebhookLib = require(game.ServerScriptService.WebhookLib)\<newline>'' @
          ''\<newline>'' @
          ''-- Method 2: Using a module ID\<newline>'' @
          ''local WebhookLib = require(1234567890) -- Replace with actual module ID\<newline>'' @
          ''```\<newline>'' @
          ''\<newline>'' @
          ''**Note:** Make sure HTTP requests are enabled in your game settings.''\<rparr>,
      \<lparr>subsection_title = ''Quick Start'',
        subsection_content =
          ''Here's a simple example to get you started:\<newline>'' @
          ''\<newline>'' @
          ''```lua\<newline>'' @
          ''local WebhookLib = require(game.ServerScriptService.WebhookLib)\<newline>'' @
          ''\<newline>'' @
          ''-- Create a new webhook\<newline>'' @
          ''local webhook = WebhookLib.new("YOUR_WEBHOOK_URL")\<newline>'' @
          ''\<newline>'' @
          ''-- Send a simple message\<newline>'' @
          ''webhook:Send("Hello, Discord!")\<newline>'' @
          ''\<newline>'' @
          ''-- Send a rich embed\<newline>'' @
          ''webhook:SendEmbed({\<newline>'' @
          ''    title = "Game Event",\<newline>'' @
          ''    description = "A player joined the game!",\<newline>'' @
          ''    color = 0x00ff00,\<newline>'' @
          ''    fields = {\<newline>'' @
          ''        {\<newline>'' @
          ''            name = "Player",\<newline>'' @
          ''            value = "ExamplePlayer",\<newline>'' @
          ''            inline = true\<newline>'' @
          ''        }\<newline>'' @
          ''    }\<newline>'' @
          ''})\<newline>'' @
          ''```''\<rparr>]\<rparr>\<close>

definition sample_api :: doc_section where
  \<open>sample_api =
   \<lparr>section_id = ''api'', section_title = ''API Reference'',
    section_content =
      ''Complete API reference for all WebhookLib functions and methods.'',
    subsections = Some
     [\<lparr>subsection_title = ''Webhook Class'',
        subsection_content =
          ''The main Webhook class provides all functionality for sending Discord webhooks.\<newline>'' @
          ''\<newline>'' @
          ''## Constructor\<newline>'' @
          ''\<newline>'' @
          ''```lua\<newline>'' @
          ''local webhook = WebhookLib.new(url, options)\<newline>'' @
          ''```\<newline>'' @
          ''\<newline>'' @
          ''**Parameters:**\<newline>'' @
          ''- `url` (string): The Discord webhook URL\<newline>'' @
          ''- `options` (table, optional): Configuration options\<newline>'' @
          ''\<newline>'' @
          ''**Options:**\<newline>'' @
          ''- `username` (string): Override webhook username\<newline>'' @
          ''- `avatar_url` (string): Override webhook avatar\<newline>'' @
          ''- `rate_limit` (number): Rate limit in seconds (default: 1)''\<rparr>,
      \<lparr>subsection_title = ''Methods'',
        subsection_content =
          ''## Send(content, username, avatar_url)\<newline>'' @
          ''\<newline>'' @
          ''Sends a simple text message.\<newline>'' @
          ''\<newline>'' @
          ''```lua\<newline>'' @
          ''webhook:Send("Hello World!")\<newline>'' @
          ''webhook:Send("Custom message", "CustomBot", "https://example.com/avatar.png")\<newline>'' @
          ''```\<newline>'' @
          ''\<newline>'' @
          ''## SendEmbed(embed, content, username, avatar_url)\<newline>'' @
          ''\<newline>'' @
          ''Sends a rich embed message.\<newline>'' @
          ''\<newline>'' @
          ''```lua\<newline>'' @
          ''webhook:SendEmbed({\<newline>'' @
          ''    title = "Embed Title",\<newline>'' @
          ''    description = "Embed description",\<newline>'' @
          ''    color = 0x0099ff,\<newline>'' @
          ''    timestamp = os.date("!%Y-%m-%dT%H:%M:%SZ"),\<newline>'' @
          ''    footer = {\<newline>'' @
          ''        text = "Footer text",\<newline>'' @
          ''        icon_url = "https://example.com/footer.png"\<newline>'' @
          ''    },\<newline>'' @
          ''    fields = {\<newline>'' @
          ''        {name = "Field 1", value = "Value 1", inline = true},\<newline>'' @
          ''        {name = "Field 2", value = "Value 2", inline = true}\<newline>'' @
          ''    }\<newline>'' @
          ''})\<newline>'' @
          ''```''\<rparr>]\<rparr>\<close>

definition sample_examples :: doc_section where
  \<open>sample_examples =
   \<lparr>section_id = ''examples'', section_title = ''Examples'',
    section_content =
      ''Practical examples and use cases for WebhookLib.'',
    subsections = Some
     [\<lparr>subsection_title = ''Player Events'',
        subsection_content =
          ''Track player join/leave events:\<newline>'' @
          ''\<newline>'' @
          ''```lua\<newline>'' @
          ''local WebhookLib = require(game.ServerScriptService.WebhookLib)\<newline>'' @
          ''local webhook = WebhookLib.new("YOUR_WEBHOOK_URL")\<newline>'' @
          ''\<newline>'' @
          ''game.Players.PlayerAdded:Connect(function(player)\<newline>'' @
          ''    webhook:SendEmbed({\<newline>'' @
          ''        title = "Player Joined",\<newline>'' @
          ''        description = player.Name .. " has joined the game!",\<newline>'' @
          ''        color = 0x00ff00,\<newline>'' @
          ''        timestamp = os.date("!%Y-%m-%dT%H:%M:%SZ"),\<newline>'' @
          ''        thumbnail = {\<newline>'' @
          ''            url = "https://www.roblox.com/headshot-thumbnail/image?userId=" .. player.UserId .. "&width=150&height=150&format=png"\<newline>'' @
          ''        }\<newline>'' @
          ''    })\<newline>'' @
          ''end)\<newline>'' @
          ''\<newline>'' @
          ''game.Players.PlayerRemoving:Connect(function(player)\<newline>'' @
          ''    webhook:SendEmbed({\<newline>'' @
          ''        title = "Player Left",\<newline>'' @
          ''        description = player.Name .. " has left the game.",\<newline>'' @
          ''        color = 0xff0000,\<newline>'' @
          ''        timestamp = os.date("!%Y-%m-%dT%H:%M:%SZ")\<newline>'' @
          ''    })\<newline>'' @
          ''end)\<newline>'' @
          ''```''\<rparr>,
      \<lparr>subsection_title = ''Error Logging'',
        subsection_content =
          ''Log errors and important events:\<newline>'' @
          ''\<newline>'' @
          ''```lua\<newline>'' @
          ''local function logError(errorMessage, scriptName)\<newline>'' @
          ''    webhook:SendEmbed({\<newline>'' @
          ''        title = "'' @
          [CHR 0xE2, CHR 0x9A, CHR 0xA0, CHR 0xEF, CHR 0xB8, CHR 0x8F] @
          '' Error Occurred",\<newline>'' @
          ''        description = "An error occurred in the game.",\<newline>'' @
          ''        color = 0xff4444,\<newline>'' @
          ''        fields = {\<newline>'' @
          ''            {\<newline>'' @
          ''                name = "Error Message",\<newline>'' @
          ''                value = "```" .. errorMessage .. "```",\<newline>'' @
          ''                inline = false\<newline>'' @
          ''            },\<newline>'' @
          ''            {\<newline>'' @
          ''                name = "Script",\<newline>'' @
          ''                value = scriptName or "Unknown",\<newline>'' @
          ''                inline = true\<newline>'' @
          ''            },\<newline>'' @
          ''            {\<newline>'' @
          ''                name = "Time",\<newline>'' @
          ''                value = os.date("%Y-%m-%d %H:%M:%S"),\<newline>'' @
          ''                inline = true\<newline>'' @
          ''            }\<newline>'' @
          ''        },\<newline>'' @
          ''        timestamp = os.date("!%Y-%m-%dT%H:%M:%SZ")\<newline>'' @
          ''    })\<newline>'' @
          ''end\<newline>'' @
          ''\<newline>'' @
          ''-- Usage\<newline>'' @
          ''pcall(function()\<newline>'' @
          ''    -- Your code here\<newline>'' @
          ''    someRiskyFunction()\<newline>'' @
          ''end) or logError("Failed to execute risky function", script.Name)\<newline>'' @
          ''```''\<rparr>]\<rparr>\<close>

definition getSampleDocs :: docs_json where
  "getSampleDocs = \<lparr>sections = [sample_getting_started, sample_api, sample_examples]\<rparr>"

section \<open>The search index\<close>

text \<open>
  A search record is one of two objects: for a section
  \<^verbatim>\<open>{type: 'section', id, title, content, searchText}\<close>, for a subsection
  \<^verbatim>\<open>{type: 'subsection', sectionId, id, title, content, searchText}\<close>.
\<close>

datatype search_record =
    SectionRecord (rec_id: string) (rec_title: string) (rec_content: string) (searchText: string)
  | SubsectionRecord (rec_sectionId: string) (rec_id: string) (rec_title: string)
      (rec_content: string) (searchText: string)

definition section_record :: "doc_section \<Rightarrow> search_record" where
  "section_record s =
     SectionRecord (section_id s) (section_title s) (section_content s)
       (toLowerCase (section_title s @ '' '' @ section_content s))"

definition subsection_record :: "doc_section \<Rightarrow> doc_subsection \<Rightarrow> search_record" where
  "subsection_record s sub =
     (let subsectionId = createSubsectionId (subsection_title sub)
      in SubsectionRecord (section_id s) subsectionId (subsection_title sub) (subsection_content sub)
           (toLowerCase (subsection_title sub @ '' '' @ subsection_content sub)))"

text \<open>The body of the outer \<^verbatim>\<open>forEach\<close>: the records one section pushes on the index.\<close>

definition index_section :: "doc_section \<Rightarrow> search_record list \<Rightarrow> search_record list" where
  "index_section s idx =
     (let idx1 = idx @ [section_record s]
      in case subsections s of
           None \<Rightarrow> idx1
         | Some subs \<Rightarrow> fold (\<lambda>sub acc. acc @ [subsection_record s sub]) subs idx1)"

definition build_index :: "docs_json \<Rightarrow> search_record list" where
  "build_index d = fold index_section (sections d) []"

section \<open>The page and the documentation system\<close>

text \<open>
  The browser is modelled by what the script reads and writes. A navigation group
  is a \<^verbatim>\<open>.nav-section\<close> element, its entries are the \<^verbatim>\<open>.nav-item\<close> elements in
  it in document order: the section title first, then one entry per subsection.
  An entry carries its \<^verbatim>\<open>data-section\<close> and \<^verbatim>\<open>data-subsection\<close> attributes,
  its \<^verbatim>\<open>style.display\<close> and the classes the script sets.
\<close>

record nav_item =
  data_section :: string
  data_subsection :: "string option"
  is_section_title :: bool
  item_display :: string
  item_active :: bool
  search_highlight :: bool

record nav_section =
  nav_items :: "nav_item list"
  nav_display :: string
  search_filtered :: bool
  expanded :: bool

datatype js_error = TypeError

text \<open>
  The first four fields are the fields of the \<^verbatim>\<open>DocumentationSystem\<close> object. The
  others are the page: the fragment of the location, the width of the window, the
  markup last assigned to \<^verbatim>\<open>#docsContent\<close> and to \<^verbatim>\<open>#sidebarNav\<close> (\<open>None\<close>
  when the page has no such element), the navigation groups of the page, the
  \<^verbatim>\<open>.search-empty-state\<close> element (its markup and its display, once created) and
  the anchor the view was last asked to scroll to (\<open>None\<close> for the top).
\<close>

record system =
  docs :: "docs_json option"
  currentSection :: string
  searchIndex :: "search_record list"
  isLoading :: bool
  location_hash :: string
  innerWidth :: nat
  docsContent :: "string option"
  sidebarNav :: "string option"
  nav :: "nav_section list"
  searchEmptyState :: "(string \<times> string) option"
  scrollTarget :: "string option"

definition isMobile :: "system \<Rightarrow> bool" where
  "isMobile st = (innerWidth st \<le> 768)"

text \<open>The constructor of \<^verbatim>\<open>DocumentationSystem\<close>, on a page.\<close>

definition construct :: "system \<Rightarrow> system" where
  "construct page =
     page\<lparr>docs := None, currentSection := ''getting-started'', searchIndex := [],
          isLoading := False\<rparr>"

subsection \<open>Loading the document\<close>

text \<open>
  The outcome of \<^verbatim>\<open>fetch('docs.json')\<close>: the request fails, or there is a
  response, with its \<^verbatim>\<open>ok\<close> flag and what \<^verbatim>\<open>response.json()\<close> makes of its body
  (\<open>None\<close> when the body does not parse). \<^verbatim>\<open>script.js\<close> takes the document of an ok
  response and the sample document in every other case.
\<close>

datatype fetch_outcome = NetworkError | Response bool "docs_json option"

definition loadDocs :: "fetch_outcome \<Rightarrow> system \<Rightarrow> system" where
  "loadDocs outcome st =
     (let d = (case outcome of
                 NetworkError \<Rightarrow> getSampleDocs
               | Response ok body \<Rightarrow>
                   if \<not> ok then getSampleDocs
                   else (case body of None \<Rightarrow> getSampleDocs | Some json \<Rightarrow> json))
      in st\<lparr>docs := Some d\<rparr>)"

definition buildSearchIndex :: "system \<Rightarrow> system" where
  "buildSearchIndex st =
     (case docs st of None \<Rightarrow> st | Some d \<Rightarrow> st\<lparr>searchIndex := build_index d\<rparr>)"

subsection \<open>Navigation\<close>

definition nav_subsection_html :: "doc_section \<Rightarrow> doc_subsection \<Rightarrow> string" where
  \<open>nav_subsection_html s sub =
     (let subsectionId = createSubsectionId (subsection_title sub)
      in ''<div class="nav-item nav-subsection" data-section="'' @
        section_id s @
        ''" data-subsection="'' @
        subsectionId @
        ''">'' @
        subsection_title sub @
        ''</div>'')\<close>

definition nav_section_html :: "doc_section \<Rightarrow> string" where
  \<open>nav_section_html s =
     (let subsectionHTML =
            (case subsections s of None \<Rightarrow> [] | Some subs \<Rightarrow> concat (map (nav_subsection_html s) subs))
      in ''\<newline>'' @
        ''                <div class="nav-section">\<newline>'' @
        ''                    <div class="nav-item nav-section-title" data-section="'' @
        section_id s @
        ''">'' @
        section_title s @
        ''</div>\<newline>'' @
        ''                    <div class="nav-items">\<newline>'' @
        ''                        '' @
        subsectionHTML @
        ''\<newline>'' @
        ''                    </div>\<newline>'' @
        ''                </div>\<newline>'' @
        ''            '')\<close>

definition navHTML :: "docs_json \<Rightarrow> string" where
  "navHTML d = concat (map nav_section_html (sections d))"

text \<open>
  The elements the browser builds from that markup, when the ids and titles hold
  no markup of their own: one group per section, with its title entry and its
  subsection entries, all with an empty \<^verbatim>\<open>style.display\<close> and no class set.
\<close>

definition title_entry :: "doc_section \<Rightarrow> nav_item" where
  "title_entry s =
     \<lparr>data_section = section_id s, data_subsection = None, is_section_title = True,
      item_display = [], item_active = False, search_highlight = False\<rparr>"

definition subsection_entry :: "doc_section \<Rightarrow> doc_subsection \<Rightarrow> nav_item" where
  "subsection_entry s sub =
     \<lparr>data_section = section_id s,
      data_subsection = Some (createSubsectionId (subsection_title sub)),
      is_section_title = False, item_display = [], item_active = False,
      search_highlight = False\<rparr>"

definition nav_group :: "doc_section \<Rightarrow> nav_section" where
  "nav_group s =
     \<lparr>nav_items = title_entry s #
        (case subsections s of None \<Rightarrow> [] | Some subs \<Rightarrow> map (subsection_entry s) subs),
      nav_display = [], search_filtered = False, expanded = False\<rparr>"

definition buildNavigation :: "system \<Rightarrow> system" where
  "buildNavigation st =
     (case (sidebarNav st, docs st) of
        (Some old, Some d) \<Rightarrow>
          st\<lparr>sidebarNav := Some (navHTML d), nav := map nav_group (sections d),
             searchEmptyState := None\<rparr>
      | _ \<Rightarrow> st)"

text \<open>
  \<^verbatim>\<open>document.querySelector\<close> returns the first element in document order that
  matches. The selectors of the script compare the two data attributes with the
  ids it interpolates, which is what the browser does when an id holds no quote,
  backslash or line break. \<open>upd_first\<close> changes the first element of a list that
  satisfies a test, \<open>upd_first_item\<close> the first entry of the page that does.
\<close>

fun upd_first :: "('a \<Rightarrow> bool) \<Rightarrow> ('a \<Rightarrow> 'a) \<Rightarrow> 'a list \<Rightarrow> 'a list" where
  "upd_first P f [] = []"
| "upd_first P f (x # xs) = (if P x then f x # xs else x # upd_first P f xs)"

definition has_item :: "(nav_item \<Rightarrow> bool) \<Rightarrow> nav_section \<Rightarrow> bool" where
  "has_item P n = list_ex P (nav_items n)"

definition upd_first_item ::
    "(nav_item \<Rightarrow> bool) \<Rightarrow> (nav_item \<Rightarrow> nav_item) \<Rightarrow> (nav_section \<Rightarrow> nav_section) \<Rightarrow>
     nav_section list \<Rightarrow> nav_section list" where
  "upd_first_item P f h ns =
     upd_first (has_item P) (\<lambda>n. h (n\<lparr>nav_items := upd_first P f (nav_items n)\<rparr>)) ns"

definition map_items :: "(nav_item \<Rightarrow> nav_item) \<Rightarrow> nav_section \<Rightarrow> nav_section" where
  "map_items f n = n\<lparr>nav_items := map f (nav_items n)\<rparr>"

definition truthy_opt :: "string option \<Rightarrow> bool" where
  "truthy_opt x = (case x of None \<Rightarrow> False | Some s \<Rightarrow> truthy s)"

definition section_selector :: "string \<Rightarrow> nav_item \<Rightarrow> bool" where
  "section_selector sectionId i = (data_section i = sectionId \<and> data_subsection i = None)"

definition subsection_selector :: "string \<Rightarrow> string \<Rightarrow> nav_item \<Rightarrow> bool" where
  "subsection_selector sectionId subsectionId i =
     (data_section i = sectionId \<and> data_subsection i = Some subsectionId)"

definition updateActiveNavItem :: "string \<Rightarrow> string option \<Rightarrow> system \<Rightarrow> system" where
  "updateActiveNavItem sectionId subsectionId st =
     (let cleared = map (map_items (\<lambda>i. i\<lparr>item_active := False\<rparr>)) (nav st);
          selector = (case subsectionId of
                        Some sub \<Rightarrow> if truthy sub then subsection_selector sectionId sub
                                    else section_selector sectionId
                      | None \<Rightarrow> section_selector sectionId)
      in st\<lparr>nav := upd_first_item selector (\<lambda>i. i\<lparr>item_active := True\<rparr>)
                      (\<lambda>n. n\<lparr>expanded := True\<rparr>) cleared\<rparr>)"

subsection \<open>Rendering a section\<close>

definition loading_container :: string where
  \<open>loading_container =
     ''<div class="loading-container">\<newline>'' @
     ''                    <div class="loading-spinner">\<newline>'' @
     ''                        <div class="spinner"></div>\<newline>'' @
     ''                    </div>\<newline>'' @
     ''                    <p class="loading-text">Loading documentation...</p>\<newline>'' @
     ''                </div>''\<close>

definition loading_html :: string where
  \<open>loading_html =
     ''\<newline>'' @
     ''                '' @ loading_container @
     ''\<newline>'' @
     ''            ''\<close>

definition showLoadingState :: "system \<Rightarrow> system" where
  "showLoadingState st =
     (case docsContent st of
        None \<Rightarrow> st
      | Some old \<Rightarrow> st\<lparr>docsContent := Some loading_html\<rparr>)"

definition error_html :: "string \<Rightarrow> string" where
  \<open>error_html message =
     ''\<newline>'' @
     ''                <div class="error-container">\<newline>'' @
     ''                    <div class="error-icon">'' @
     [CHR 0xE2, CHR 0x9A, CHR 0xA0, CHR 0xEF, CHR 0xB8, CHR 0x8F] @
     ''</div>\<newline>'' @
     ''                    <h2>Oops! Something went wrong</h2>\<newline>'' @
     ''                    <p class="error-message">'' @
     message @
     ''</p>\<newline>'' @
     ''                    <button class="retry-button" onclick="location.reload()">\<newline>'' @
     ''                        Retry\<newline>'' @
     ''                    </button>\<newline>'' @
     ''                </div>\<newline>'' @
     ''            ''\<close>

definition showError :: "string \<Rightarrow> system \<Rightarrow> system" where
  "showError message st =
     (case docsContent st of
        None \<Rightarrow> st
      | Some old \<Rightarrow> st\<lparr>docsContent := Some (error_html message)\<rparr>)"

fun findIndex :: "('a \<Rightarrow> bool) \<Rightarrow> 'a list \<Rightarrow> int" where
  "findIndex P [] = - 1"
| "findIndex P (x # xs) =
     (if P x then 0 else let i = findIndex P xs in if i < 0 then - 1 else i + 1)"

definition prev_button :: "doc_section \<Rightarrow> string" where
  \<open>prev_button s =
     ''\<newline>'' @
     ''                    <button class="nav-button prev-button" onclick="window.docsSystem.loadSection('' @
     [CHR 0x27] @
     section_id s @
     [CHR 0x27] @
     '')">\<newline>'' @
     ''                        <span class="nav-button-icon">'' @
     [CHR 0xE2, CHR 0x86, CHR 0x90] @
     ''</span>\<newline>'' @
     ''                        <div class="nav-button-text">\<newline>'' @
     ''                            <small>Previous</small>\<newline>'' @
     ''                            <span>'' @
     section_title s @
     ''</span>\<newline>'' @
     ''                        </div>\<newline>'' @
     ''                    </button>\<newline>'' @
     ''                ''\<close>

definition next_button :: "doc_section \<Rightarrow> string" where
  \<open>next_button s =
     ''\<newline>'' @
     ''                    <button class="nav-button next-button" onclick="window.docsSystem.loadSection('' @
     [CHR 0x27] @
     section_id s @
     [CHR 0x27] @
     '')">\<newline>'' @
     ''                        <div class="nav-button-text">\<newline>'' @
     ''                            <small>Next</small>\<newline>'' @
     ''                            <span>'' @
     section_title s @
     ''</span>\<newline>'' @
     ''                        </div>\<newline>'' @
     ''                        <span class="nav-button-icon">'' @
     [CHR 0xE2, CHR 0x86, CHR 0x92] @
     ''</span>\<newline>'' @
     ''                    </button>\<newline>'' @
     ''                ''\<close>

definition renderMobileNavigation :: "system \<Rightarrow> js_error + string" where
  \<open>renderMobileNavigation st =
     (case docs st of
        None \<Rightarrow> Inl TypeError
      | Some d \<Rightarrow>
          let secs = sections d;
              currentIndex = findIndex (\<lambda>s. section_id s = currentSection st) secs;
              prevSection = (if 0 < currentIndex then Some (secs ! nat (currentIndex - 1)) else None);
              nextSection = (if currentIndex < int (length secs) - 1
                             then Some (secs ! nat (currentIndex + 1)) else None)
          in Inr (
        ''\<newline>'' @
        ''            <div class="mobile-nav-buttons">\<newline>'' @
        ''                '' @
        (case prevSection of Some s \<Rightarrow> prev_button s | None \<Rightarrow> []) @
        ''\<newline>'' @
        ''                '' @
        (case nextSection of Some s \<Rightarrow> next_button s | None \<Rightarrow> []) @
        ''\<newline>'' @
        ''            </div>\<newline>'' @
        ''        ''))\<close>

definition section_header_html :: "doc_section \<Rightarrow> string" where
  \<open>section_header_html s =
     ''\<newline>'' @
     ''            <div class="section-header">\<newline>'' @
     ''                <h1>'' @
     section_title s @
     ''</h1>\<newline>'' @
     ''                <p class="section-description">'' @
     section_content s @
     ''</p>\<newline>'' @
     ''            </div>\<newline>'' @
     ''        ''\<close>

text \<open>
  The markup of one subsection; \<open>has_next\<close> says that another subsection follows
  (\<^verbatim>\<open>index < section.subsections.length - 1\<close>), and the divider is written then.
\<close>

definition subsection_html :: "operands \<Rightarrow> doc_subsection \<Rightarrow> bool \<Rightarrow> string" where
  \<open>subsection_html L sub has_next =
     (let subsectionId = createSubsectionId (subsection_title sub);
          divider = (if has_next then ''<hr class="subsection-divider">'' else [])
      in ''\<newline>'' @
        ''                    <section id="'' @
        subsectionId @
        ''" class="subsection">\<newline>'' @
        ''                        <h2>'' @
        subsection_title sub @
        ''</h2>\<newline>'' @
        ''                        <div class="subsection-content">'' @
        renderMarkdown L (subsection_content sub) @
        ''</div>\<newline>'' @
        ''                        '' @
        divider @
        ''\<newline>'' @
        ''                    </section>\<newline>'' @
        ''                '')\<close>

fun subsections_html :: "operands \<Rightarrow> doc_subsection list \<Rightarrow> string" where
  "subsections_html L [] = []"
| "subsections_html L (sub # rest) = subsection_html L sub (rest \<noteq> []) @ subsections_html L rest"

definition section_html :: "operands \<Rightarrow> doc_section \<Rightarrow> string" where
  "section_html L s =
     section_header_html s @
     (case subsections s of None \<Rightarrow> [] | Some subs \<Rightarrow> subsections_html L subs)"

text \<open>
  \<^verbatim>\<open>renderSection\<close> assigns the markup to \<^verbatim>\<open>#docsContent\<close> and then scrolls. The
  copy buttons it adds afterwards are nodes inside the rendered code blocks; they
  are not part of the markup assigned and are not modelled.
\<close>

definition renderSection ::
    "operands \<Rightarrow> doc_section \<Rightarrow> string option \<Rightarrow> system \<Rightarrow> js_error + system" where
  "renderSection L s targetSubsectionId st =
     (case docsContent st of
        None \<Rightarrow> Inr st
      | Some old \<Rightarrow>
          (case (if isMobile st then renderMobileNavigation st else Inr []) of
             Inl e \<Rightarrow> Inl e
           | Inr mobile \<Rightarrow>
               Inr (st\<lparr>docsContent := Some (section_html L s @ mobile),
                       scrollTarget := (if truthy_opt targetSubsectionId then targetSubsectionId
                                        else None)\<rparr>)))"

subsection \<open>The section loader\<close>

definition getCurrentSectionFromURL :: "system \<Rightarrow> string" where
  "getCurrentSectionFromURL st =
     (let hash = drop 1 (location_hash st)
      in if truthy hash then hash else ''getting-started'')"

text \<open>
  \<^verbatim>\<open>history.pushState({}, '', url)\<close> parses the url against the address of the page.
  The urls of the script begin with \<^verbatim>\<open>#\<close>, so the parser keeps the address and
  reads a fragment: it drops control characters and spaces at the end of the text
  and tabs and line breaks everywhere, and it writes a control character, a space,
  a double quote, \<^verbatim>\<open><\<close>, \<^verbatim>\<open>>\<close>, a backquote and every byte above \<^verbatim>\<open>~\<close> as a
  percent sign and two hexadecimal digits. \<^verbatim>\<open>location.hash\<close> is then \<^verbatim>\<open>#\<close> and that
  fragment, or the empty string when the fragment is empty.
\<close>

definition hex_digit :: "nat \<Rightarrow> char" where
  "hex_digit n = ''0123456789ABCDEF'' ! n"

definition percent_encode :: "char \<Rightarrow> string" where
  "percent_encode c =
     (let n = (of_char c :: nat) in [CHR ''%'', hex_digit (n div 16), hex_digit (n mod 16)])"

definition fragment_char :: "char \<Rightarrow> string" where
  "fragment_char c =
     (let n = (of_char c :: nat)
      in if n < 32 \<or> 126 < n \<or> c \<in> set [CHR '' '', CHR 0x22, CHR ''<'', CHR ''>'', CHR 0x60]
         then percent_encode c else [c])"

definition is_c0_or_space :: "char \<Rightarrow> bool" where
  "is_c0_or_space c = ((of_char c :: nat) \<le> 32)"

definition is_tab_or_newline :: "char \<Rightarrow> bool" where
  "is_tab_or_newline c = (c \<in> set [CHR 0x09, CHR 0x0A, CHR 0x0D])"

definition url_fragment :: "string \<Rightarrow> string" where
  "url_fragment t =
     concat (map fragment_char
       (filter (\<lambda>c. \<not> is_tab_or_newline c) (rev (dropWhile is_c0_or_space (rev t)))))"

definition pushState :: "string \<Rightarrow> system \<Rightarrow> system" where
  "pushState url st =
     (let fragment = url_fragment (drop 1 url)
      in st\<lparr>location_hash := (if fragment = [] then [] else ''#'' @ fragment)\<rparr>)"

definition loadSection ::
    "operands \<Rightarrow> string \<Rightarrow> string option \<Rightarrow> bool \<Rightarrow> system \<Rightarrow> js_error + system" where
  "loadSection L sectionId subsectionId updateURL st =
     (case docs st of
        None \<Rightarrow> Inl TypeError
      | Some d \<Rightarrow>
          (case find (\<lambda>s. section_id s = sectionId) (sections d) of
             None \<Rightarrow> Inr (showError ''Section not found.'' st)
           | Some s \<Rightarrow>
               let st1 = st\<lparr>currentSection := sectionId\<rparr>;
                   st2 = (if updateURL
                          then let url = (case subsectionId of
                                            Some sub \<Rightarrow> if truthy sub then ''#'' @ sectionId @ ''-'' @ sub
                                                        else ''#'' @ sectionId
                                          | None \<Rightarrow> ''#'' @ sectionId)
                               in pushState url st1
                          else st1)
               in (case renderSection L s subsectionId st2 of
                     Inl e \<Rightarrow> Inl e
                   | Inr st3 \<Rightarrow> Inr (updateActiveNavItem sectionId subsectionId st3))))"

text \<open>The \<^verbatim>\<open>popstate\<close> handler that \<^verbatim>\<open>bindEvents\<close> installs.\<close>

definition on_popstate :: "operands \<Rightarrow> system \<Rightarrow> js_error + system" where
  "on_popstate L st = loadSection L (getCurrentSectionFromURL st) None False st"

text \<open>
  \<^verbatim>\<open>hideLoadingState\<close> removes the \<^verbatim>\<open>.loading-container\<close> element, which is on the
  page exactly while the loading markup is the content; the white space around it
  stays.
\<close>

definition hideLoadingState :: "system \<Rightarrow> system" where
  \<open>hideLoadingState st =
     (if docsContent st = Some loading_html
      then st\<lparr>docsContent := Some (
     ''\<newline>'' @
     ''                '' @
     ''\<newline>'' @
     ''            '')\<rparr>
      else st)\<close>

definition init :: "operands \<Rightarrow> fetch_outcome \<Rightarrow> system \<Rightarrow> system" where
  "init L outcome st =
     (if docsContent st = None then st
      else
        let st1 = showLoadingState (st\<lparr>isLoading := True\<rparr>);
            st2 = buildNavigation (buildSearchIndex (loadDocs outcome st1));
            st3 = (case loadSection L (getCurrentSectionFromURL st2) None True st2 of
                     Inl e \<Rightarrow> showError ''Failed to load documentation. Please refresh the page.'' st2
                   | Inr st' \<Rightarrow> st')
        in hideLoadingState (st3\<lparr>isLoading := False\<rparr>))"

subsection \<open>The search filter\<close>

definition search_results :: "search_record list \<Rightarrow> string \<Rightarrow> search_record list" where
  "search_results idx searchQuery =
     filter (\<lambda>item. str_includes (searchText item) searchQuery \<or>
                     str_includes (toLowerCase (rec_title item)) searchQuery) idx"

definition empty_state_html :: "string \<Rightarrow> string" where
  \<open>empty_state_html query =
     ''\<newline>'' @
     ''            <div class="empty-state-content">\<newline>'' @
     ''                <p>No results found for "<strong>'' @
     query @
     ''</strong>"</p>\<newline>'' @
     ''                <small>Try a different search term or browse the navigation.</small>\<newline>'' @
     ''            </div>\<newline>'' @
     ''        ''\<close>

definition showSearchEmptyState :: "string \<Rightarrow> system \<Rightarrow> js_error + system" where
  "showSearchEmptyState query st =
     (case searchEmptyState st of
        Some old \<Rightarrow> Inr (st\<lparr>searchEmptyState := Some (empty_state_html query, ''block'')\<rparr>)
      | None \<Rightarrow>
          (case sidebarNav st of
             None \<Rightarrow> Inl TypeError
           | Some m \<Rightarrow> Inr (st\<lparr>searchEmptyState := Some (empty_state_html query, ''block'')\<rparr>)))"

definition hideSearchEmptyState :: "system \<Rightarrow> system" where
  "hideSearchEmptyState st =
     (case searchEmptyState st of
        None \<Rightarrow> st
      | Some (markup, display) \<Rightarrow> st\<lparr>searchEmptyState := Some (markup, ''none'')\<rparr>)"

definition show_all :: "nav_section \<Rightarrow> nav_section" where
  "show_all n =
     map_items (\<lambda>i. i\<lparr>item_display := ''block'', search_highlight := False\<rparr>)
       (n\<lparr>nav_display := ''block'', search_filtered := False\<rparr>)"

definition hide_all :: "nav_section \<Rightarrow> nav_section" where
  "hide_all n =
     map_items (\<lambda>i. i\<lparr>item_display := ''none'', search_highlight := False\<rparr>)
       (n\<lparr>nav_display := ''none'', search_filtered := True\<rparr>)"

text \<open>
  One round of the loop over the results: the entry of the result is shown and
  highlighted, and the id of its section is added to the set of visible
  sections (a list without duplicates, in the order of insertion).
\<close>

definition show_result ::
    "search_record \<Rightarrow> nav_section list \<times> string list \<Rightarrow> nav_section list \<times> string list" where
  "show_result result acc =
     (let (ns, visibleSections) = acc;
          (selector, sectionId) =
            (case result of
               SectionRecord i t c x \<Rightarrow> (section_selector i, i)
             | SubsectionRecord sid i t c x \<Rightarrow> (subsection_selector sid i, sid))
      in if list_ex (has_item selector) ns
         then (upd_first_item selector
                 (\<lambda>i. i\<lparr>item_display := ''block'', search_highlight := True\<rparr>) (\<lambda>n. n) ns,
               if sectionId \<in> set visibleSections then visibleSections
               else visibleSections @ [sectionId])
         else (ns, visibleSections))"

text \<open>
  One round of the loop over the visible sections: the group of the first entry
  with that section id is shown, and so is its title entry.
\<close>

definition show_section :: "string \<Rightarrow> nav_section list \<Rightarrow> js_error + nav_section list" where
  "show_section sectionId ns =
     (if list_ex (has_item (\<lambda>i. data_section i = sectionId)) ns
      then Inr (upd_first (has_item (\<lambda>i. data_section i = sectionId))
                  (\<lambda>n. n\<lparr>nav_display := ''block'', search_filtered := False,
                          nav_items := upd_first is_section_title
                                         (\<lambda>i. i\<lparr>item_display := ''block''\<rparr>) (nav_items n)\<rparr>) ns)
      else Inl TypeError)"

fun show_sections :: "string list \<Rightarrow> nav_section list \<Rightarrow> js_error + nav_section list" where
  "show_sections [] ns = Inr ns"
| "show_sections (sectionId # rest) ns =
     (case show_section sectionId ns of Inl e \<Rightarrow> Inl e | Inr ns' \<Rightarrow> show_sections rest ns')"

definition searchDocumentation :: "string \<Rightarrow> system \<Rightarrow> js_error + system" where
  "searchDocumentation query st =
     (let searchQuery = trim (toLowerCase query)
      in if \<not> truthy searchQuery then Inr (st\<lparr>nav := map show_all (nav st)\<rparr>)
         else
           let searchResults = search_results (searchIndex st) searchQuery;
               (shown, visibleSections) = fold show_result searchResults (map hide_all (nav st), [])
           in (case show_sections visibleSections shown of
                 Inl e \<Rightarrow> Inl e
               | Inr ns \<Rightarrow>
                   if searchResults = [] then showSearchEmptyState searchQuery (st\<lparr>nav := ns\<rparr>)
                   else Inr (hideSearchEmptyState (st\<lparr>nav := ns\<rparr>))))"

section \<open>The documentation system of \<^verbatim>\<open>part_000\<close>\<close>

text \<open>
  The \<^verbatim>\<open>DocumentationSystem\<close> of \<^verbatim>\<open>part_000\<close> has the fields \<^verbatim>\<open>docs\<close>,
  \<^verbatim>\<open>currentSection\<close> and \<^verbatim>\<open>searchIndex\<close>. Its \<^verbatim>\<open>buildSearchIndex\<close>,
  \<^verbatim>\<open>buildNavigation\<close> and \<^verbatim>\<open>createSubsectionId\<close> are those of \<^verbatim>\<open>script.js\<close>,
  character for character in what they compute; the functions below differ.
\<close>

definition construct_p000 :: "system \<Rightarrow> system" where
  "construct_p000 page = page\<lparr>docs := None, currentSection := ''introduction'', searchIndex := []\<rparr>"

definition error_html_p000 :: "string \<Rightarrow> string" where
  \<open>error_html_p000 message =
     ''\<newline>'' @
     ''                <div class="error-message">\<newline>'' @
     ''                    <h2>Error</h2>\<newline>'' @
     ''                    <p>'' @
     message @
     ''</p>\<newline>'' @
     ''                </div>\<newline>'' @
     ''            ''\<close>

definition showError_p000 :: "string \<Rightarrow> system \<Rightarrow> system" where
  "showError_p000 message st =
     (case docsContent st of
        None \<Rightarrow> st
      | Some old \<Rightarrow> st\<lparr>docsContent := Some (error_html_p000 message)\<rparr>)"

text \<open>
  \<^verbatim>\<open>loadDocs\<close> does not look at the \<^verbatim>\<open>ok\<close> flag of the response: whatever body
  parses becomes the document. When the request fails or the body does not parse
  it shows the error panel and leaves \<^verbatim>\<open>docs\<close> as it was.
\<close>

definition loadDocs_p000 :: "fetch_outcome \<Rightarrow> system \<Rightarrow> system" where
  "loadDocs_p000 outcome st =
     (case outcome of
        Response ok (Some json) \<Rightarrow> st\<lparr>docs := Some json\<rparr>
      | _ \<Rightarrow> showError_p000 ''Failed to load documentation. Please refresh the page.'' st)"

definition section_header_html_p000 :: "doc_section \<Rightarrow> string" where
  \<open>section_header_html_p000 s =
     ''\<newline>'' @
     ''            <h1>'' @
     section_title s @
     ''</h1>\<newline>'' @
     ''            <p>'' @
     section_content s @
     ''</p>\<newline>'' @
     ''        ''\<close>

definition subsection_html_p000 :: "doc_subsection \<Rightarrow> string" where
  \<open>subsection_html_p000 sub =
     (let subsectionId = createSubsectionId (subsection_title sub)
      in ''\<newline>'' @
        ''                    <section id="'' @
        subsectionId @
        ''">\<newline>'' @
        ''                        <h2>'' @
        subsection_title sub @
        ''</h2>\<newline>'' @
        ''                        <div class="subsection-content">'' @
        renderMarkdown_p000 (subsection_content sub) @
        ''</div>\<newline>'' @
        ''                    </section>\<newline>'' @
        ''                '')\<close>

definition section_html_p000 :: "doc_section \<Rightarrow> string" where
  "section_html_p000 s =
     section_header_html_p000 s @
     (case subsections s of None \<Rightarrow> [] | Some subs \<Rightarrow> concat (map subsection_html_p000 subs))"

definition renderSection_p000 :: "doc_section \<Rightarrow> string option \<Rightarrow> system \<Rightarrow> system" where
  "renderSection_p000 s targetSubsectionId st =
     (case docsContent st of
        None \<Rightarrow> st
      | Some old \<Rightarrow>
          st\<lparr>docsContent := Some (section_html_p000 s),
             scrollTarget := (if truthy_opt targetSubsectionId then targetSubsectionId else None)\<rparr>)"

definition updateActiveNavItem_p000 :: "string \<Rightarrow> string option \<Rightarrow> system \<Rightarrow> system" where
  "updateActiveNavItem_p000 sectionId subsectionId st =
     (let cleared = map (map_items (\<lambda>i. i\<lparr>item_active := False\<rparr>)) (nav st);
          selector = (case subsectionId of
                        Some sub \<Rightarrow> if truthy sub then subsection_selector sectionId sub
                                    else section_selector sectionId
                      | None \<Rightarrow> section_selector sectionId)
      in st\<lparr>nav := upd_first_item selector (\<lambda>i. i\<lparr>item_active := True\<rparr>) (\<lambda>n. n) cleared\<rparr>)"

definition getCurrentSectionFromURL_p000 :: "system \<Rightarrow> string" where
  "getCurrentSectionFromURL_p000 st =
     (let hash = drop 1 (location_hash st)
      in if truthy hash then hash else ''introduction'')"

definition loadSection_p000 ::
    "string \<Rightarrow> string option \<Rightarrow> bool \<Rightarrow> system \<Rightarrow> js_error + system" where
  "loadSection_p000 sectionId subsectionId updateURL st =
     (case docs st of
        None \<Rightarrow> Inl TypeError
      | Some d \<Rightarrow>
          (case find (\<lambda>s. section_id s = sectionId) (sections d) of
             None \<Rightarrow> Inr (showError_p000 ''Section not found.'' st)
           | Some s \<Rightarrow>
               let st1 = st\<lparr>currentSection := sectionId\<rparr>;
                   st2 = (if updateURL
                          then let url = (case subsectionId of
                                            Some sub \<Rightarrow> if truthy sub then ''#'' @ sectionId @ ''-'' @ sub
                                                        else ''#'' @ sectionId
                                          | None \<Rightarrow> ''#'' @ sectionId)
                               in pushState url st1
                          else st1)
               in Inr (updateActiveNavItem_p000 sectionId subsectionId
                         (renderSection_p000 s subsectionId st2))))"

text \<open>
  \<^verbatim>\<open>init\<close> has no handler of its own: when \<^verbatim>\<open>loadSection\<close> throws, the promise of
  \<^verbatim>\<open>init\<close> is rejected and the page stays as it was at that point.
\<close>

definition init_p000 :: "fetch_outcome \<Rightarrow> system \<Rightarrow> js_error + system" where
  "init_p000 outcome st =
     (if docsContent st = None then Inr st
      else
        let st2 = buildNavigation (buildSearchIndex (loadDocs_p000 outcome st))
        in loadSection_p000 (getCurrentSectionFromURL_p000 st2) None True st2)"

subsection \<open>The search filter of \<^verbatim>\<open>part_000\<close>\<close>

definition show_all_p000 :: "nav_section \<Rightarrow> nav_section" where
  "show_all_p000 n = map_items (\<lambda>i. i\<lparr>item_display := ''block''\<rparr>) (n\<lparr>nav_display := ''block''\<rparr>)"

definition hide_items_p000 :: "nav_section \<Rightarrow> nav_section" where
  "hide_items_p000 n = map_items (\<lambda>i. i\<lparr>item_display := ''none''\<rparr>) n"

text \<open>
  One round of the loop over the results: the entry of the result is shown, and
  with it its group and the title entry of the group.
\<close>

definition show_result_p000 :: "search_record \<Rightarrow> nav_section list \<Rightarrow> nav_section list" where
  "show_result_p000 result ns =
     (let selector =
            (case result of
               SectionRecord i t c x \<Rightarrow> section_selector i
             | SubsectionRecord sid i t c x \<Rightarrow> subsection_selector sid i)
      in upd_first_item selector (\<lambda>i. i\<lparr>item_display := ''block''\<rparr>)
           (\<lambda>n. n\<lparr>nav_display := ''block'',
                   nav_items := upd_first is_section_title
                                  (\<lambda>i. i\<lparr>item_display := ''block''\<rparr>) (nav_items n)\<rparr>) ns)"

text \<open>The last loop: a group is shown exactly if one of its entries is not hidden.\<close>

definition settle_p000 :: "nav_section \<Rightarrow> nav_section" where
  "settle_p000 n =
     n\<lparr>nav_display := (if list_ex (\<lambda>i. item_display i \<noteq> ''none'') (nav_items n)
                        then ''block'' else ''none'')\<rparr>"

definition search_results_p000 :: "search_record list \<Rightarrow> string \<Rightarrow> search_record list" where
  "search_results_p000 idx searchQuery = filter (\<lambda>item. str_includes (searchText item) searchQuery) idx"

definition searchDocumentation_p000 :: "string \<Rightarrow> system \<Rightarrow> system" where
  "searchDocumentation_p000 query st =
     (let searchQuery = trim (toLowerCase query)
      in if \<not> truthy searchQuery then st\<lparr>nav := map show_all_p000 (nav st)\<rparr>
         else
           let searchResults = search_results_p000 (searchIndex st) searchQuery
           in st\<lparr>nav := map settle_p000
                          (fold show_result_p000 searchResults (map hide_items_p000 (nav st)))\<rparr>)"
section \<open>The theme\<close>

text \<open>
  The fields of \<^verbatim>\<open>ThemeManager\<close> and what it touches: the \<^verbatim>\<open>data-theme\<close>
  attribute of the document, the markup of the theme icons, the
  \<^verbatim>\<open>theme-color\<close> meta element, and the preference store, which is the item
  \<^verbatim>\<open>webhooklib-theme\<close> of \<^verbatim>\<open>localStorage\<close>. Reading and writing the store can
  throw (storage disabled or full); the script catches both.
\<close>

record theme_manager =
  theme :: string
  transitionEnabled :: bool
  data_theme :: string
  theme_icon :: string
  meta_theme_color :: string
  stored_theme :: "string option"
  storage_readable :: bool
  storage_writable :: bool

definition getSystemTheme :: "bool \<Rightarrow> string" where
  "getSystemTheme matches = (if matches then ''dark'' else ''light'')"

definition getStoredTheme :: "theme_manager \<Rightarrow> string option" where
  "getStoredTheme tm = (if storage_readable tm then stored_theme tm else None)"

definition storeTheme :: "string \<Rightarrow> theme_manager \<Rightarrow> theme_manager" where
  "storeTheme t tm = (if storage_writable tm then tm\<lparr>stored_theme := Some t\<rparr> else tm)"

definition moon_icon :: string where
  \<open>moon_icon =
     ''<path d="M21 12.79A9 9 0 1 1 11.21 3 7 7 0 0 0 21 12.79z"/>''\<close>

definition sun_icon :: string where
  \<open>sun_icon =
     ''<circle cx="12" cy="12" r="5"/>\<newline>'' @
     ''                    <path d="M12 1v2M12 21v2M4.22 4.22l1.42 1.42M18.36 18.36l1.42 1.42M1 12h2M21 12h2M4.22 19.78l1.42-1.42M18.36 5.64l1.42-1.42"/>''\<close>

definition applyTheme :: "string \<Rightarrow> theme_manager \<Rightarrow> theme_manager" where
  "applyTheme t tm =
     tm\<lparr>data_theme := t,
        theme_icon := (if t = ''dark'' then moon_icon else sun_icon),
        meta_theme_color := (if t = ''dark'' then ''#1a1a2e'' else ''#ffffff'')\<rparr>"

text \<open>
  The constructor, on a page whose colour scheme query has the value \<open>matches\<close>:
  \<^verbatim>\<open>this.theme = this.getStoredTheme() || this.getSystemTheme()\<close>, then
  \<^verbatim>\<open>init\<close> applies the theme. The timer of \<^verbatim>\<open>init\<close> sets
  \<^verbatim>\<open>transitionEnabled\<close> a moment later.
\<close>

definition theme_construct :: "bool \<Rightarrow> theme_manager \<Rightarrow> theme_manager" where
  "theme_construct matches page =
     (let t = (case getStoredTheme page of
                 Some s \<Rightarrow> if truthy s then s else getSystemTheme matches
               | None \<Rightarrow> getSystemTheme matches)
      in applyTheme t (page\<lparr>theme := t, transitionEnabled := False\<rparr>))"

definition on_transition_timer :: "theme_manager \<Rightarrow> theme_manager" where
  "on_transition_timer tm = tm\<lparr>transitionEnabled := True\<rparr>"

definition theme_toggle :: "theme_manager \<Rightarrow> theme_manager" where
  "theme_toggle tm =
     (let t = (if theme tm = ''dark'' then ''light'' else ''dark'')
      in storeTheme t (applyTheme t (tm\<lparr>theme := t\<rparr>)))"

text \<open>The listener for changes of the colour scheme of the system.\<close>

definition on_system_change :: "bool \<Rightarrow> theme_manager \<Rightarrow> theme_manager" where
  "on_system_change matches tm =
     (if \<not> truthy_opt (getStoredTheme tm)
      then let t = (if matches then ''dark'' else ''light'')
           in applyTheme t (tm\<lparr>theme := t\<rparr>)
      else tm)"

datatype theme_event = Toggle | SystemChange bool

fun theme_step :: "theme_event \<Rightarrow> theme_manager \<Rightarrow> theme_manager" where
  "theme_step Toggle tm = theme_toggle tm"
| "theme_step (SystemChange matches) tm = on_system_change matches tm"

definition theme_run :: "theme_event list \<Rightarrow> theme_manager \<Rightarrow> theme_manager" where
  "theme_run evs tm = fold theme_step evs tm"

section \<open>The mobile menu\<close>

text \<open>
  The fields of \<^verbatim>\<open>MobileMenuManager\<close> and what \<^verbatim>\<open>toggle\<close> touches: the
  \<^verbatim>\<open>aria\<close> attributes of the toggle and of the panel, the classes
  \<^verbatim>\<open>opening\<close>, \<^verbatim>\<open>open\<close> and \<^verbatim>\<open>closing\<close> of the panel, the class
  \<^verbatim>\<open>active\<close> of the toggle, the overflow style of the body, and the timers
  it starts. All timers of \<^verbatim>\<open>toggle\<close> run 300 ms, so they fire in the order
  in which they were started.
\<close>

datatype menu_timer = FocusFirstLink | ClearTransitionClasses | EndAnimation

record mobile_menu =
  isOpen :: bool
  isAnimating :: bool
  has_mobileNav :: bool
  has_mobileToggle :: bool
  aria_expanded :: string
  aria_hidden :: string
  class_opening :: bool
  class_open :: bool
  class_closing :: bool
  toggle_active :: bool
  body_overflow :: string
  timers :: "menu_timer list"

definition bool_toString :: "bool \<Rightarrow> string" where
  "bool_toString b = (if b then ''true'' else ''false'')"

definition menu_toggle :: "mobile_menu \<Rightarrow> mobile_menu" where
  "menu_toggle m =
     (if isAnimating m then m
      else
        let m1 = m\<lparr>isAnimating := True, isOpen := \<not> isOpen m\<rparr>;
            m2 = (if has_mobileNav m1 \<and> has_mobileToggle m1
                  then let m' = m1\<lparr>aria_expanded := bool_toString (isOpen m1),
                                    aria_hidden := bool_toString (\<not> isOpen m1)\<rparr>
                       in if isOpen m'
                          then m'\<lparr>body_overflow := ''hidden'', class_opening := True,
                                  class_open := True, toggle_active := True,
                                  timers := timers m' @ [FocusFirstLink]\<rparr>
                          else m'\<lparr>body_overflow := [], class_closing := True,
                                  class_open := False, toggle_active := False,
                                  timers := timers m' @ [ClearTransitionClasses]\<rparr>
                  else m1)
        in m2\<lparr>timers := timers m2 @ [EndAnimation]\<rparr>)"

definition menu_close :: "mobile_menu \<Rightarrow> mobile_menu" where
  "menu_close m = (if \<not> isOpen m \<or> isAnimating m then m else menu_toggle m)"

fun run_timer :: "menu_timer \<Rightarrow> mobile_menu \<Rightarrow> mobile_menu" where
  "run_timer FocusFirstLink m = m"
| "run_timer ClearTransitionClasses m = m\<lparr>class_closing := False, class_opening := False\<rparr>"
| "run_timer EndAnimation m = m\<lparr>isAnimating := False\<rparr>"

text \<open>The next timer fires.\<close>

definition fire_timer :: "mobile_menu \<Rightarrow> mobile_menu" where
  "fire_timer m =
     (case timers m of [] \<Rightarrow> m | t # ts \<Rightarrow> run_timer t (m\<lparr>timers := ts\<rparr>))"

text \<open>
  The \<^verbatim>\<open>MobileMenuManager\<close> of \<^verbatim>\<open>part_000\<close> has the field \<^verbatim>\<open>isOpen\<close> only. Its
  \<^verbatim>\<open>toggle\<close> flips the field and sets the classes \<^verbatim>\<open>open\<close> of the panel and
  \<^verbatim>\<open>active\<close> of the toggle to it; it starts no timer and keeps no record of a
  transition.
\<close>

definition menu_toggle_p000 :: "mobile_menu \<Rightarrow> mobile_menu" where
  "menu_toggle_p000 m =
     (let m1 = m\<lparr>isOpen := \<not> isOpen m\<rparr>;
          m2 = (if has_mobileNav m1 then m1\<lparr>class_open := isOpen m1\<rparr> else m1)
      in if has_mobileToggle m2 then m2\<lparr>toggle_active := isOpen m2\<rparr> else m2)"
section \<open>Reference definitions and example states\<close>

text \<open>
  The definitions of this section are not functions of the script. They are the
  notions in which the theorems below are stated (what a plain text is, what the
  markup of a code block is, the slug of a title) and the documents, pages and
  texts of the examples. \<open>example_operands\<close> gives the three operands that cannot
  be read in \<^verbatim>\<open>script.js\<close> a value for the examples, the matched text itself;
  the theorems hold for every value.
\<close>

fun needs :: "(char \<Rightarrow> bool) \<Rightarrow> re \<Rightarrow> bool" where
  "needs P (Chr c) = P c"
| "needs P (Cls f) = (\<forall>c. f c \<longrightarrow> P c)"
| "needs P (Seq a b) = (needs P a \<or> needs P b)"
| "needs P (Alt a b) = (needs P a \<and> needs P b)"
| "needs P (Grp n a) = needs P a"
| "needs P r = False"

definition br :: "string \<Rightarrow> string" where
  "br s = concat (map (\<lambda>c. if c = nl then ''<br>'' else [c]) s)"



fun no_pair :: "char \<Rightarrow> char \<Rightarrow> string \<Rightarrow> bool" where
  "no_pair a b (x # y # r) = (\<not> (x = a \<and> y = b) \<and> no_pair a b (y # r))"
| "no_pair a b r = True"







definition example_operands :: operands where
  "example_operands =
     \<lparr>ul_operand = (\<lambda>m g. m), lua_number_operand = (\<lambda>m g. m), js_number_operand = (\<lambda>m g. m)\<rparr>"

definition plain_text :: "string \<Rightarrow> bool" where
  "plain_text s =
     (s \<noteq> [] \<and>
      list_all (\<lambda>c. c \<notin> set ''`*['' \<and> \<not> is_line_terminator c) s \<and>
      no_pair CHR ''<'' CHR ''l'' s \<and>
      \<not> startsWith s ''# '' \<and> \<not> startsWith s ''## '' \<and> \<not> startsWith s ''### '' \<and>
      \<not> startsWith s ''- '' \<and> \<not> startsWith s ''> '' \<and> s \<noteq> ''---'' \<and>
      \<not> (is_digit (hd s) \<and> startsWith (dropWhile is_digit s) ''. ''))"

definition intro_docs :: docs_json where
  "intro_docs =
     \<lparr>sections =
        [\<lparr>section_id = ''intro'', section_title = ''Intro'', section_content = ''Hi'',
          subsections = Some [\<lparr>subsection_title = ''Step One'', subsection_content = ''go''\<rparr>]\<rparr>]\<rparr>"

definition intro_page :: system where
  "intro_page =
     \<lparr>docs = Some intro_docs, currentSection = ''intro'', searchIndex = build_index intro_docs,
      isLoading = False, location_hash = ''#intro'', innerWidth = 1024,
      docsContent = Some (section_html example_operands (hd (sections intro_docs))),
      sidebarNav = Some (navHTML intro_docs),
      nav = map nav_group (sections intro_docs), searchEmptyState = None, scrollTarget = None\<rparr>"

definition section_records :: "doc_section \<Rightarrow> search_record list" where
  "section_records s =
     section_record s #
     (case subsections s of None \<Rightarrow> [] | Some subs \<Rightarrow> map (subsection_record s) subs)"





definition filtered_page :: system where
  "filtered_page =
     intro_page\<lparr>nav := map hide_all (nav intro_page),
                searchEmptyState := Some (empty_state_html ''zzz'', ''block'')\<rparr>"

definition loaded_docs :: "fetch_outcome \<Rightarrow> docs_json" where
  "loaded_docs outcome =
     (case outcome of Response True (Some json) \<Rightarrow> json | _ \<Rightarrow> getSampleDocs)"

definition fetch_failed :: "fetch_outcome \<Rightarrow> bool" where
  "fetch_failed outcome =
     (case outcome of NetworkError \<Rightarrow> True | Response ok body \<Rightarrow> \<not> ok \<or> body = None)"

definition url_of :: "string \<Rightarrow> string option \<Rightarrow> string" where
  "url_of sectionId subsectionId =
     (case subsectionId of
        Some sub \<Rightarrow> if truthy sub then ''#'' @ sectionId @ ''-'' @ sub else ''#'' @ sectionId
      | None \<Rightarrow> ''#'' @ sectionId)"

definition blank_page :: system where
  "blank_page =
     \<lparr>docs = None, currentSection = [], searchIndex = [], isLoading = False,
      location_hash = [], innerWidth = 1024, docsContent = Some [], sidebarNav = Some [],
      nav = [], searchEmptyState = None, scrollTarget = None\<rparr>"

definition reloaded_page :: system where
  "reloaded_page = blank_page\<lparr>location_hash := ''#intro-step-one''\<rparr>"

definition menu_animating :: mobile_menu where
  "menu_animating =
     \<lparr>isOpen = True, isAnimating = True, has_mobileNav = True, has_mobileToggle = True,
      aria_expanded = ''true'', aria_hidden = ''false'', class_opening = True, class_open = True,
      class_closing = False, toggle_active = True, body_overflow = ''hidden'',
      timers = [FocusFirstLink, EndAnimation]\<rparr>"

definition menu_closed :: mobile_menu where
  "menu_closed =
     \<lparr>isOpen = False, isAnimating = False, has_mobileNav = True, has_mobileToggle = True,
      aria_expanded = ''false'', aria_hidden = ''true'', class_opening = False, class_open = False,
      class_closing = False, toggle_active = False, body_overflow = [], timers = []\<rparr>"

definition pinned :: "theme_manager \<Rightarrow> bool" where
  "pinned tm = (storage_readable tm \<and> storage_writable tm \<and> truthy_opt (stored_theme tm))"

definition page_unwritable :: theme_manager where
  "page_unwritable =
     \<lparr>theme = ''light'', transitionEnabled = True, data_theme = ''light'', theme_icon = sun_icon,
      meta_theme_color = ''#ffffff'', stored_theme = None, storage_readable = True,
      storage_writable = False\<rparr>"

definition page_fresh :: theme_manager where
  "page_fresh = page_unwritable\<lparr>storage_writable := True\<rparr>"

definition code_block :: "string \<Rightarrow> string \<Rightarrow> string" where
  \<open>code_block language inner =
     ''\<newline>'' @
     ''                    <div class="code-block" data-language="'' @ language @ ''">\<newline>'' @
     ''                        <div class="code-header">\<newline>'' @
     ''                            <span class="code-lang">'' @ language @ ''</span>\<newline>'' @
     ''                        </div>\<newline>'' @
     ''                        <pre><code class="language-'' @ language @ ''">'' @ inner @
     ''</code></pre>\<newline>'' @
     ''                    </div>\<newline>'' @
     ''                ''\<close>

definition code_block_p000 :: "string \<Rightarrow> string \<Rightarrow> string" where
  \<open>code_block_p000 language inner =
     ''\<newline>'' @
     ''                    <div class="code-block">\<newline>'' @
     ''                        <div class="code-header">\<newline>'' @
     ''                            <span class="code-lang">'' @ language @ ''</span>\<newline>'' @
     ''                            <button class="copy-btn" onclick="copyCode(this)">Copy</button>\<newline>'' @
     ''                        </div>\<newline>'' @
     ''                        <pre><code>'' @ inner @ ''</code></pre>\<newline>'' @
     ''                    </div>\<newline>'' @
     ''                ''\<close>

definition entity_chars :: "char set" where
  "entity_chars = set ''&amp;lt;gt;nbsp;''"


definition language_of :: "string \<Rightarrow> string" where
  "language_of lang = (if lang = [] then ''text'' else lang)"

definition language_of_p000 :: "string \<Rightarrow> string" where
  "language_of_p000 lang = (if lang = [] then ''Code'' else lang)"



definition inline_code :: "string \<Rightarrow> string" where
  "inline_code x = [CHR 0x60] @ x @ [CHR 0x60]"

definition inline_text :: "string \<Rightarrow> bool" where
  "inline_text x =
     (x \<noteq> [] \<and> list_all (\<lambda>c. c \<notin> set ''`*['' \<and> \<not> is_line_terminator c) x \<and>
      no_pair CHR ''<'' CHR ''l'' x)"

definition markup_docs :: docs_json where
  "markup_docs =
     \<lparr>sections =
        [\<lparr>section_id = ''intro'', section_title = ''<i>Intro</i>'',
          section_content = ''<script>x</script>'',
          subsections = Some [\<lparr>subsection_title = ''a<b'', subsection_content = ''go''\<rparr>]\<rparr>]\<rparr>"

definition markup_page :: system where
  "markup_page = blank_page\<lparr>docs := Some markup_docs\<rparr>"

section \<open>Properties of the matcher\<close>

declare replace_from.simps [simp del]
declare rmatch.simps(6) [simp del]
declare rmatch.simps(7) [simp del]

lemma match_prefix_suffix: "match_prefix t s = Some s' \<Longrightarrow> suffix s' s"
  by (induction t s rule: match_prefix.induct) (auto simp: suffix_Cons split: if_splits)

lemma match_prefix_eq: "match_prefix t s = Some s' \<longleftrightarrow> s = t @ s'"
  by (induction t s rule: match_prefix.induct) auto

lemma rmatch_suffix_aux:
  "x \<in> set (rmatch r st) \<Longrightarrow> suffix (fst (snd x)) (fst (snd st))"
proof (induction r st arbitrary: x rule: rmatch.induct)
  case (1 st)
  then show ?case by simp
next
  case (2 c p s g)
  then show ?case by (cases s) (auto simp: suffix_Cons split: if_splits)
next
  case (3 f p s g)
  then show ?case by (cases s) (auto simp: suffix_Cons split: if_splits)
next
  case (4 a b st)
  from "4.prems" obtain y where y: "y \<in> set (rmatch a st)" and x: "x \<in> set (rmatch b y)"
    by auto
  from "4.IH"(1) [OF y] "4.IH"(2) [OF y x] show ?case
    by (rule suffix_order.order_trans [rotated])
next
  case (5 a b st)
  from "5.prems" have "x \<in> set (rmatch a st) \<or> x \<in> set (rmatch b st)" by simp
  then show ?case using "5.IH" by blast
next
  case (6 a p s g)
  from "6.prems" consider "x = (p, s, g)"
    | y where "y \<in> set (rmatch a (p, s, g))" "length (fst (snd y)) < length s"
        "x \<in> set (rmatch (Star a) y)"
    by (subst (asm) rmatch.simps(6)) (auto split: if_splits)
  then show ?case
  proof cases
    case 1
    then show ?thesis by simp
  next
    case 2
    obtain p1 s1 g1 where y: "y = (p1, s1, g1)" by (cases y)
    from "6.IH"(1) [OF 2(1)] have a: "suffix s1 s" by (simp add: y)
    from "6.IH"(2) [OF 2(1) y [symmetric] refl] 2(2,3) have "suffix (fst (snd x)) s1"
      by (simp add: y)
    with a show ?thesis by (auto intro: suffix_order.order_trans)
  qed
next
  case (7 a p s g)
  from "7.prems" consider "x = (p, s, g)"
    | y where "y \<in> set (rmatch a (p, s, g))" "length (fst (snd y)) < length s"
        "x \<in> set (rmatch (Lazy a) y)"
    by (subst (asm) rmatch.simps(7)) (auto split: if_splits)
  then show ?case
  proof cases
    case 1
    then show ?thesis by simp
  next
    case 2
    obtain p1 s1 g1 where y: "y = (p1, s1, g1)" by (cases y)
    from "7.IH"(1) [OF 2(1)] have a: "suffix s1 s" by (simp add: y)
    from "7.IH"(2) [OF 2(1) y [symmetric] refl] 2(2,3) have "suffix (fst (snd x)) s1"
      by (simp add: y)
    with a show ?thesis by (auto intro: suffix_order.order_trans)
  qed
next
  case (8 n a p s g)
  then show ?case by auto
next
  case (9 n p s g)
  then show ?case by (auto split: option.splits dest: match_prefix_suffix [OF sym])
next
  case (10 p s g)
  then show ?case by (auto split: if_splits)
next
  case (11 p s g)
  then show ?case by (auto split: if_splits)
next
  case (12 p s g)
  then show ?case by (auto split: option.splits if_splits)
next
  case (13 p s g)
  then show ?case by (cases s) (auto split: if_splits)
next
  case (14 p s g)
  then show ?case by (auto split: if_splits)
next
  case (15 a st)
  then show ?case by (auto split: if_splits)
qed

lemma rmatch_suffix: "(p', s', g') \<in> set (rmatch r (p, s, g)) \<Longrightarrow> suffix s' s"
  using rmatch_suffix_aux [of "(p', s', g')" r "(p, s, g)"] by simp

lemma rmatch_set: "(p', s', g') \<in> set (rmatch r (p, s, g)) \<Longrightarrow> set s' \<subseteq> set s"
  by (drule rmatch_suffix) (rule set_mono_suffix)

lemma rmatch_lit:
  "rmatch (lit t) (p, s, g) =
     (case match_prefix t s of None \<Rightarrow> [] | Some s' \<Rightarrow> [(last_char p t, s', g)])"
proof (induction t arbitrary: p s)
  case Nil
  then show ?case by (simp add: last_char_def lit.simps)
next
  case (Cons c cs)
  then show ?case
    by (cases s) (auto simp: last_char_def lit.simps split: option.splits)
qed

declare lit.simps [simp del]

lemma rmatch_seqs_Nil: "rmatch (seqs []) st = [st]"
  by (simp add: seqs_def)

lemma rmatch_seqs_Cons: "rmatch (seqs (r # rs)) st = concat (map (rmatch (seqs rs)) (rmatch r st))"
  by (simp add: seqs_def)

lemma rmatch_needs:
  "needs P r \<Longrightarrow> \<forall>c \<in> set s. \<not> P c \<Longrightarrow> rmatch r (p, s, g) = []"
proof (induction r arbitrary: p s g)
  case (Chr c)
  then show ?case by (cases s) auto
next
  case (Cls f)
  then show ?case by (cases s) auto
next
  case (Seq a b)
  show ?case
  proof (cases "needs P a")
    case True
    with Seq show ?thesis by simp
  next
    case False
    with Seq.prems have b: "needs P b" by simp
    have "rmatch b y = []" if "y \<in> set (rmatch a (p, s, g))" for y
    proof -
      obtain p1 s1 g1 where y: "y = (p1, s1, g1)" by (cases y)
      from that have "set s1 \<subseteq> set s" unfolding y by (rule rmatch_set)
      with Seq.prems(2) have "\<forall>c \<in> set s1. \<not> P c" by blast
      with Seq.IH(2) [OF b] show ?thesis unfolding y by blast
    qed
    then show ?thesis by simp
  qed
next
  case (Alt a b)
  then show ?case by simp
next
  case (Grp n a)
  then show ?case by simp
qed simp_all

lemma replace_from_no_match:
  "(\<And>p' s'. suffix s' s \<Longrightarrow> rmatch r (p', s', []) = []) \<Longrightarrow> replace_from r f p s = s"
proof (induction s arbitrary: p)
  case Nil
  then show ?case by (subst replace_from.simps) simp
next
  case (Cons c cs)
  have "rmatch r (p, c # cs, []) = []"
    by (rule Cons.prems) simp
  moreover have "replace_from r f (Some c) cs = cs"
    by (rule Cons.IH) (simp add: Cons.prems suffix_Cons)
  ultimately show ?case
    by (subst replace_from.simps) simp
qed

lemma replace_all_needs:
  assumes "needs P r" and "\<forall>c \<in> set s. \<not> P c"
  shows "replace_all r f s = s"
  unfolding replace_all_def
proof (rule replace_from_no_match)
  fix p' s' assume "suffix s' s"
  then have "set s' \<subseteq> set s" by (rule set_mono_suffix)
  with assms(2) have "\<forall>c \<in> set s'. \<not> P c" by blast
  with assms(1) show "rmatch r (p', s', []) = []" by (rule rmatch_needs)
qed

lemma replace_from_line_inner:
  "\<forall>c \<in> set s. \<not> is_line_terminator c \<Longrightarrow> \<not> is_line_terminator c0 \<Longrightarrow>
   replace_from (Seq LineStart r) f (Some c0) s = s"
proof (induction s arbitrary: c0)
  case Nil
  then show ?case by (subst replace_from.simps) simp
next
  case (Cons c cs)
  then show ?case by (subst replace_from.simps) simp
qed

lemma replace_all_line:
  assumes "\<forall>c \<in> set s. \<not> is_line_terminator c" and "rmatch r (None, s, []) = []"
  shows "replace_all (Seq LineStart r) f s = s"
proof (cases s)
  case Nil
  with assms(2) show ?thesis
    unfolding replace_all_def by (subst replace_from.simps) simp
next
  case (Cons c cs)
  with assms(1) have "replace_from (Seq LineStart r) f (Some c) cs = cs"
    by (intro replace_from_line_inner) simp_all
  with assms(2) Cons show ?thesis
    unfolding replace_all_def by (subst replace_from.simps) simp
qed

lemma rmatch_star_cls:
  "x \<in> set (rmatch (Star (Cls P)) (p, s, g)) \<Longrightarrow>
   fst (snd x) = dropWhile P s \<or> (fst (snd x) \<noteq> [] \<and> P (hd (fst (snd x))))"
proof (induction s arbitrary: p)
  case Nil
  then show ?case by (subst (asm) rmatch.simps(6)) simp
next
  case (Cons c cs)
  show ?case
  proof (cases "P c")
    case True
    from Cons.prems have "x \<in> set (rmatch (Star (Cls P)) (Some c, cs, g)) \<or> x = (p, c # cs, g)"
      by (subst (asm) rmatch.simps(6)) (auto simp: True)
    then show ?thesis
      using Cons.IH [of "Some c"] True by auto
  next
    case False
    from Cons.prems have "x = (p, c # cs, g)"
      by (subst (asm) rmatch.simps(6)) (simp add: False)
    then show ?thesis using False by simp
  qed
qed

section \<open>Stages that leave a text alone\<close>



lemma replace_from_end: "rmatch r (p, [], []) = [] \<Longrightarrow> replace_from r f p [] = []"
  by (subst replace_from.simps) simp






lemma no_pair_suffix: "no_pair a b s \<Longrightarrow> suffix s' s \<Longrightarrow> \<not> prefix [a, b] s'"
proof (induction a b s rule: no_pair.induct)
  case (1 a b x y r)
  from "1.prems"(2) consider "s' = x # y # r" | "suffix s' (y # r)"
    by (auto simp: suffix_Cons)
  then show ?case
  proof cases
    case 1
    with "1.prems"(1) show ?thesis by auto
  next
    case 2
    with "1.IH" "1.prems"(1) show ?thesis by simp
  qed
qed (auto simp: suffix_Cons)

lemma no_pair_append:
  "no_pair a b (u @ v) =
     (no_pair a b u \<and> no_pair a b v \<and> \<not> (u \<noteq> [] \<and> v \<noteq> [] \<and> last u = a \<and> hd v = b))"
proof (induction u)
  case Nil
  show ?case by simp
next
  case (Cons x u)
  show ?case
  proof (cases u)
    case Nil
    then show ?thesis by (cases v) auto
  next
    case (Cons y r)
    with Cons.IH show ?thesis by simp
  qed
qed

lemma no_pair_Cons:
  "no_pair a b (x # u) = (\<not> (u \<noteq> [] \<and> x = a \<and> hd u = b) \<and> no_pair a b u)"
  using no_pair_append [of a b "[x]" u] by auto

lemma no_pair_absent: "a \<notin> set s \<Longrightarrow> no_pair a b s"
  by (induction a b s rule: no_pair.induct) auto

lemma replace_from_no_pair:
  assumes "no_pair a b s"
    and "\<And>p' s'. \<not> prefix [a, b] s' \<Longrightarrow> rmatch r (p', s', []) = []"
  shows "replace_from r f p s = s"
  by (rule replace_from_no_match) (rule assms(2), rule no_pair_suffix, rule assms(1))






lemma match_prefix_None: "\<not> prefix t s \<Longrightarrow> match_prefix t s = None"
  by (cases "match_prefix t s") (auto simp: match_prefix_eq)

lemma stage_list_pairs:
  assumes "no_pair CHR ''<'' CHR ''l'' h"
  shows "replace_all re_list_run f h = h"
  unfolding replace_all_def
  using assms
proof (rule replace_from_no_pair)
  fix p' s' assume "\<not> prefix ''<l'' s'"
  moreover have "prefix ''<l'' ''<li>''" by simp
  ultimately have "\<not> prefix ''<li>'' s'"
    using prefix_order.trans by blast
  then have "match_prefix ''<li>'' s' = None"
    by (rule match_prefix_None)
  then have "rmatch (seqs [lit ''<li>'', Star (Cls any_char), lit ''</li>'', Star (Cls is_space)])
               (p', s', []) = []"
    by (simp add: rmatch_seqs_Cons rmatch_lit)
  then show "rmatch re_list_run (p', s', []) = []"
    by (simp add: re_list_run_def plus_def)
qed



lemma replace_first_from_no_match:
  "(\<And>p' s'. suffix s' s \<Longrightarrow> rmatch r (p', s', []) = []) \<Longrightarrow> replace_first_from r f p s = s"
proof (induction s arbitrary: p)
  case Nil
  then show ?case by simp
next
  case (Cons x xs)
  have "rmatch r (p, x # xs, []) = []"
    by (rule Cons.prems) simp
  moreover have "replace_first_from r f (Some x) xs = xs"
    by (rule Cons.IH) (rule Cons.prems, simp add: suffix_Cons)
  ultimately show ?case by simp
qed

lemma replace_first_needs:
  assumes "needs P r" and "\<forall>c \<in> set s. \<not> P c"
  shows "replace_first r f s = s"
  unfolding replace_first_def
proof (rule replace_first_from_no_match)
  fix p' s' assume "suffix s' s"
  then have "set s' \<subseteq> set s" by (rule set_mono_suffix)
  with assms(2) have "\<forall>c \<in> set s'. \<not> P c" by blast
  with assms(1) show "rmatch r (p', s', []) = []" by (rule rmatch_needs)
qed

lemma replace_first_no_pair:
  assumes "no_pair a b s"
    and "\<And>p' s'. \<not> prefix [a, b] s' \<Longrightarrow> rmatch r (p', s', []) = []"
  shows "replace_first r f s = s"
  unfolding replace_first_def
  by (rule replace_first_from_no_match) (rule assms(2), rule no_pair_suffix, rule assms(1))

lemma stage_first_pairs:
  assumes "no_pair CHR ''<'' CHR ''l'' h"
  shows "replace_first re_list_first f h = h"
  using assms
proof (rule replace_first_no_pair)
  fix p' s' assume "\<not> prefix ''<l'' s'"
  moreover have "prefix ''<l'' ''<li>''" by simp
  ultimately have "\<not> prefix ''<li>'' s'"
    using prefix_order.trans by blast
  then have "match_prefix ''<li>'' s' = None"
    by (rule match_prefix_None)
  then have "rmatch (seqs [lit ''<li>'', Star (Cls any_char), lit ''</li>'']) (p', s', []) = []"
    by (simp add: rmatch_seqs_Cons rmatch_lit)
  then show "rmatch re_list_first (p', s', []) = []"
    by (simp add: re_list_first_def)
qed

section \<open>Subsection ids are slugs\<close>




lemma star_cls_head:
  "\<exists>p' rest. rmatch (Star (Cls P)) (p, s, g) = (p', dropWhile P s, g) # rest"
proof (induction s arbitrary: p)
  case Nil
  show ?case by (subst rmatch.simps(6)) simp
next
  case (Cons c cs)
  show ?case
  proof (cases "P c")
    case True
    from Cons [of "Some c"] obtain p' rest where
      "rmatch (Star (Cls P)) (Some c, cs, g) = (p', dropWhile P cs, g) # rest" by blast
    then show ?thesis
      by (subst rmatch.simps(6)) (simp add: True)
  next
    case False
    then show ?thesis by (subst rmatch.simps(6)) simp
  qed
qed












section \<open>Plain text through the pipeline\<close>

lemma plain_chars:
  assumes "plain_text s"
  shows "\<forall>c \<in> set s. c \<noteq> CHR 0x60" and "\<forall>c \<in> set s. c \<noteq> CHR ''*''"
    and "\<forall>c \<in> set s. c \<noteq> CHR ''[''" and "no_pair CHR ''<'' CHR ''l'' s"
    and "\<forall>c \<in> set s. \<not> is_line_terminator c" and "\<forall>c \<in> set s. c \<noteq> nl"
  using assms by (auto simp: plain_text_def list_all_iff is_line_terminator_def nl_def)

lemma no_prefix_no_line:
  assumes "\<forall>c \<in> set s. \<not> is_line_terminator c" and "\<not> startsWith s marker"
  shows "replace_all (re_line marker) f s = s"
proof -
  have "rmatch (seqs [lit marker, Grp 1 (plus (Cls dot)), LineEnd]) (None, s, []) = []"
    using assms(2) by (simp add: rmatch_seqs_Cons rmatch_lit startsWith_def)
  with assms(1) have "replace_all (Seq LineStart (seqs [lit marker, Grp 1 (plus (Cls dot)), LineEnd])) f s = s"
    by (rule replace_all_line)
  then show ?thesis by (simp add: re_line_def seqs_def)
qed

lemma no_rule:
  assumes "\<forall>c \<in> set s. \<not> is_line_terminator c" and "s \<noteq> ''---''"
  shows "replace_all re_rule f s = s"
proof -
  have "rmatch (seqs [lit ''---'', LineEnd]) (None, s, []) = []"
  proof (cases "match_prefix ''---'' s")
    case None
    then show ?thesis by (simp add: rmatch_seqs_Cons rmatch_lit)
  next
    case (Some s')
    then have s: "s = ''---'' @ s'" by (simp only: match_prefix_eq)
    with assms(2) obtain c cs where c: "s' = c # cs" by (cases s') auto
    with s assms(1) have "\<not> is_line_terminator c" by simp
    with Some c show ?thesis
      by (simp add: rmatch_seqs_Cons rmatch_seqs_Nil rmatch_lit)
  qed
  with assms(1) have "replace_all (Seq LineStart (seqs [lit ''---'', LineEnd])) f s = s"
    by (rule replace_all_line)
  then show ?thesis by (simp add: re_rule_def seqs_def)
qed

lemma digit_not_dot: "is_digit c \<Longrightarrow> c \<noteq> CHR ''.''"
  by (auto simp: is_digit_def)

lemma no_ordered_item:
  assumes "\<forall>c \<in> set s. \<not> is_line_terminator c"
    and "\<not> (is_digit (hd s) \<and> startsWith (dropWhile is_digit s) ''. '')"
  shows "replace_all re_ordered_item f s = s"
proof -
  let ?tail = "seqs [lit ''. '', Grp 1 (plus (Cls dot)), LineEnd]"
  have tail: "rmatch ?tail y = []"
    if "fst (snd y) = dropWhile is_digit s \<and> is_digit (hd s) \<or>
        (fst (snd y) \<noteq> [] \<and> is_digit (hd (fst (snd y))))" for y
  proof -
    obtain p1 s1 g1 where y: "y = (p1, s1, g1)" by (cases y)
    have "match_prefix ''. '' s1 = None"
    proof (cases "s1 \<noteq> [] \<and> is_digit (hd s1)")
      case True
      then obtain c cs where "s1 = c # cs" "is_digit c" by (cases s1) auto
      then show ?thesis using digit_not_dot by auto
    next
      case False
      with that y have "s1 = dropWhile is_digit s" "is_digit (hd s)" by auto
      with assms(2) show ?thesis by (simp add: startsWith_def)
    qed
    then show ?thesis
      unfolding y by (simp add: rmatch_seqs_Cons rmatch_lit)
  qed
  have "rmatch (seqs (plus (Cls is_digit) # [lit ''. '', Grp 1 (plus (Cls dot)), LineEnd])) (None, s, []) = []"
  proof (cases s)
    case Nil
    then show ?thesis by (simp add: rmatch_seqs_Cons plus_def)
  next
    case (Cons c cs)
    show ?thesis
    proof (cases "is_digit c")
      case False
      with Cons show ?thesis by (simp add: rmatch_seqs_Cons plus_def)
    next
      case True
      have t: "rmatch ?tail y = []" if "y \<in> set (rmatch (Star (Cls is_digit)) (Some c, cs, []))" for y
        using rmatch_star_cls [OF that] True Cons by (intro tail) auto
      have "rmatch (plus (Cls is_digit)) (None, s, []) = rmatch (Star (Cls is_digit)) (Some c, cs, [])"
        using True Cons by (simp add: plus_def)
      then have "rmatch (seqs (plus (Cls is_digit) # [lit ''. '', Grp 1 (plus (Cls dot)), LineEnd])) (None, s, []) =
            concat (map (rmatch ?tail) (rmatch (Star (Cls is_digit)) (Some c, cs, [])))"
        by (simp only: rmatch_seqs_Cons)
      also have "\<dots> = []"
        using t by simp
      finally show ?thesis .
    qed
  qed
  with assms(1) have "replace_all (Seq LineStart (seqs [plus (Cls is_digit), lit ''. '', Grp 1 (plus (Cls dot)), LineEnd])) f s = s"
    by (rule replace_all_line)
  then show ?thesis by (simp add: re_ordered_item_def seqs_def)
qed

lemma needs_fence: "needs (\<lambda>c. c = CHR 0x60) re_fence"
  by (simp add: re_fence_def seqs_def lit.simps)

lemma needs_inline_code: "needs (\<lambda>c. c = CHR 0x60) re_inline_code"
  by (simp add: re_inline_code_def seqs_def lit.simps)

lemma needs_bold: "needs (\<lambda>c. c = CHR ''*'') re_bold"
  by (simp add: re_bold_def seqs_def lit.simps)

lemma needs_italic: "needs (\<lambda>c. c = CHR ''*'') re_italic"
  by (simp add: re_italic_def seqs_def lit.simps)

lemma needs_link: "needs (\<lambda>c. c = CHR ''['') re_link"
  by (simp add: re_link_def seqs_def lit.simps)

lemma needs_break: "needs (\<lambda>c. c = nl) (lit [nl, nl])" "needs (\<lambda>c. c = nl) (Chr nl)"
  by (simp_all add: lit.simps)

lemma stages_plain:
  assumes "plain_text s"
  shows "fold (\<lambda>stage h. stage h) (markdown_stages L) s = s"
proof -
  note c = plain_chars [OF assms]
  from assms have p: "\<not> startsWith s ''# ''" "\<not> startsWith s ''## ''" "\<not> startsWith s ''### ''"
    "\<not> startsWith s ''- ''" "\<not> startsWith s ''> ''" "s \<noteq> ''---''"
    "\<not> (is_digit (hd s) \<and> startsWith (dropWhile is_digit s) ''. '')"
    by (simp_all add: plain_text_def)
  show ?thesis
    unfolding markdown_stages_def
    by (simp add: replace_all_needs [OF needs_fence c(1)] replace_all_needs [OF needs_inline_code c(1)]
          replace_all_needs [OF needs_bold c(2)] replace_all_needs [OF needs_italic c(2)]
          replace_all_needs [OF needs_link c(3)] stage_list_pairs [OF c(4)]
          replace_all_needs [OF needs_break(1) c(6)] replace_all_needs [OF needs_break(2) c(6)]
          no_prefix_no_line [OF c(5)] p no_rule [OF c(5)] no_ordered_item [OF c(5)])
qed

lemma stages_plain_p000:
  assumes "plain_text s"
  shows "fold (\<lambda>stage h. stage h) markdown_stages_p000 s = s"
proof -
  note c = plain_chars [OF assms]
  from assms have p: "\<not> startsWith s ''- ''"
    by (simp add: plain_text_def)
  show ?thesis
    unfolding markdown_stages_p000_def
    by (simp add: replace_all_needs [OF needs_fence c(1)] replace_all_needs [OF needs_inline_code c(1)]
          replace_all_needs [OF needs_bold c(2)] stage_first_pairs [OF c(4)]
          replace_all_needs [OF needs_break(1) c(6)] replace_all_needs [OF needs_break(2) c(6)]
          no_prefix_no_line [OF c(5)] p)
qed

lemma renderMarkdown_plain_text:
  assumes "plain_text s"
  shows "renderMarkdown L s = (if startsWith s ''<'' then s else ''<p>'' @ s @ ''</p>'')"
proof -
  from assms have "s \<noteq> []" by (simp add: plain_text_def)
  then show ?thesis
    by (simp add: renderMarkdown_def truthy_def stages_plain [OF assms])
qed




section \<open>The section loader\<close>

text \<open>
  Claim C3. For a section id that the document does not have, \<open>loadSection\<close> puts
  the error panel into the content element and changes nothing else: the current
  section, the fragment of the location, the navigation with its active entry and
  every other field stay as they were. This holds for both versions of the
  script, each with its own error panel.
\<close>

theorem loadSection_not_found:
  assumes "docs st = Some d"
    and "sectionId \<notin> section_id ` set (sections d)"
    and "docsContent st \<noteq> None"
  shows "loadSection L sectionId subsectionId updateURL st =
           Inr (st\<lparr>docsContent := Some (error_html ''Section not found.'')\<rparr>) \<and>
         loadSection_p000 sectionId subsectionId updateURL st =
           Inr (st\<lparr>docsContent := Some (error_html_p000 ''Section not found.'')\<rparr>)"
proof -
  from assms(2) have "find (\<lambda>s. section_id s = sectionId) (sections d) = None"
    by (auto simp: find_None_iff)
  with assms(1,3) show ?thesis
    by (auto simp: loadSection_def showError_def loadSection_p000_def showError_p000_def)
qed

theorem loadSection_not_found_witness:
  "docs intro_page = Some intro_docs \<and> ''missing'' \<notin> section_id ` set (sections intro_docs) \<and>
   docsContent intro_page \<noteq> None \<and>
   loadSection example_operands ''missing'' None True intro_page =
     Inr (intro_page\<lparr>docsContent := Some (error_html ''Section not found.'')\<rparr>) \<and>
   loadSection_p000 ''missing'' None True intro_page =
     Inr (intro_page\<lparr>docsContent := Some (error_html_p000 ''Section not found.'')\<rparr>)"
proof -
  have a: "docs intro_page = Some intro_docs" by (simp add: intro_page_def)
  have b: "''missing'' \<notin> section_id ` set (sections intro_docs)" by (simp add: intro_docs_def)
  have c: "docsContent intro_page \<noteq> None" by (simp add: intro_page_def)
  from loadSection_not_found [OF a b c] a b c show ?thesis by blast
qed

section \<open>The search index and the search filter\<close>

lemma fold_push: "fold (\<lambda>x acc. acc @ [f x]) xs acc = acc @ map f xs"
  by (induction xs arbitrary: acc) simp_all

lemma index_section_eq: "index_section s idx = idx @ section_records s"
  by (simp add: index_section_def section_records_def fold_push split: option.split)

lemma fold_index_section: "fold index_section secs idx = idx @ concat (map section_records secs)"
  by (induction secs arbitrary: idx) (simp_all add: index_section_eq)

lemma build_index_eq: "build_index d = concat (map section_records (sections d))"
  by (simp add: build_index_def fold_index_section)








lemma startsWith_iff_prefix: "startsWith s t \<longleftrightarrow> prefix t s"
  unfolding startsWith_def by (induction t s rule: match_prefix.induct) auto

lemma str_includes_iff_sublist: "str_includes s t \<longleftrightarrow> sublist t s"
  by (induction s) (auto simp: startsWith_iff_prefix sublist_Cons_right)

lemma suffix_strip_codes: "suffix (strip_codes ws s) s"
proof (induction ws s rule: strip_codes.induct)
  case (1 ws s)
  show ?case
  proof (cases "find (\<lambda>w. w \<noteq> [] \<and> match_prefix w s \<noteq> None) ws")
    case None
    then show ?thesis by (subst strip_codes.simps) simp
  next
    case (Some w)
    from "1.IH" [OF Some] have "suffix (strip_codes ws (drop (length w) s)) (drop (length w) s)" .
    then have "suffix (strip_codes ws (drop (length w) s)) s"
      using suffix_drop suffix_order.trans by blast
    with Some show ?thesis by (subst strip_codes.simps) simp
  qed
qed

lemma sublist_trim: "sublist (trim s) s"
proof -
  let ?a = "strip_codes white_space_codes s"
  have "suffix ?a s" by (rule suffix_strip_codes)
  moreover have "suffix (strip_codes (map rev white_space_codes) (rev ?a)) (rev ?a)"
    by (rule suffix_strip_codes)
  then have "prefix (trim s) ?a"
    unfolding trim_def by (metis suffix_to_prefix rev_rev_ident)
  ultimately show ?thesis
    by (meson prefix_imp_sublist suffix_imp_sublist sublist_order.order_trans)
qed

lemma toLowerCase_append: "toLowerCase (a @ b) = toLowerCase a @ toLowerCase b"
  by (simp add: toLowerCase_def)

lemma title_in_searchText:
  "str_includes (toLowerCase (t @ CHR '' '' # c)) (trim (toLowerCase t))"
proof -
  have "sublist (trim (toLowerCase t)) (toLowerCase t)" by (rule sublist_trim)
  moreover have "prefix (toLowerCase t) (toLowerCase (t @ CHR '' '' # c))"
    by (simp add: toLowerCase_append)
  ultimately show ?thesis
    unfolding str_includes_iff_sublist
    by (meson prefix_imp_sublist sublist_order.order_trans)
qed

lemma section_record_in_index: "s \<in> set (sections d) \<Longrightarrow> section_record s \<in> set (build_index d)"
  by (auto simp: build_index_eq section_records_def)

lemma show_all_visible:
  "nav_display (show_all n) = ''block'' \<and> \<not> search_filtered (show_all n) \<and>
   list_all (\<lambda>i. item_display i = ''block'' \<and> \<not> search_highlight i) (nav_items (show_all n)) \<and>
   map data_section (nav_items (show_all n)) = map data_section (nav_items n) \<and>
   map data_subsection (nav_items (show_all n)) = map data_subsection (nav_items n)"
  by (simp add: show_all_def map_items_def list_all_iff)

lemma show_all_p000_visible:
  "nav_display (show_all_p000 n) = ''block'' \<and>
   list_all (\<lambda>i. item_display i = ''block'') (nav_items (show_all_p000 n)) \<and>
   map data_section (nav_items (show_all_p000 n)) = map data_section (nav_items n) \<and>
   map data_subsection (nav_items (show_all_p000 n)) = map data_subsection (nav_items n)"
  by (simp add: show_all_p000_def map_items_def list_all_iff)

text \<open>
  Claim C6. For a query that is empty after trimming, \<open>searchDocumentation\<close>
  returns the state with every navigation group and every navigation entry shown
  and nothing else changed, whatever was hidden before: the groups and entries are
  those of the state before, all with display \<^verbatim>\<open>block\<close>. And on the index that
  \<open>buildSearchIndex\<close> builds for a document, the filter run on the exact title of
  a section (ASCII title and prose) keeps the record of that section. Both hold
  for \<^verbatim>\<open>script.js\<close> and for \<^verbatim>\<open>part_000\<close>. A query is empty after trimming
  exactly if it consists of white space, which \<^verbatim>\<open>toLowerCase\<close> leaves alone, so
  the first part needs no restriction to ASCII.
\<close>

theorem search_reset_and_title_hit:
  "(\<not> truthy (trim (toLowerCase query)) \<longrightarrow>
      searchDocumentation query st = Inr (st\<lparr>nav := map show_all (nav st)\<rparr>) \<and>
      searchDocumentation_p000 query st = st\<lparr>nav := map show_all_p000 (nav st)\<rparr> \<and>
      list_all (\<lambda>n. nav_display (show_all n) = ''block'' \<and>
                    list_all (\<lambda>i. item_display i = ''block'') (nav_items (show_all n)) \<and>
                    map data_section (nav_items (show_all n)) = map data_section (nav_items n) \<and>
                    nav_display (show_all_p000 n) = ''block'' \<and>
                    list_all (\<lambda>i. item_display i = ''block'') (nav_items (show_all_p000 n)) \<and>
                    map data_section (nav_items (show_all_p000 n)) = map data_section (nav_items n))
        (nav st)) \<and>
   (docs st = Some d \<and> s \<in> set (sections d) \<and> ascii (section_title s) \<and> ascii (section_content s) \<longrightarrow>
      section_record s \<in>
        set (search_results (searchIndex (buildSearchIndex st)) (trim (toLowerCase (section_title s)))) \<and>
      section_record s \<in>
        set (search_results_p000 (searchIndex (buildSearchIndex st))
               (trim (toLowerCase (section_title s)))))"
proof -
  have reset: "searchDocumentation query st = Inr (st\<lparr>nav := map show_all (nav st)\<rparr>)"
    "searchDocumentation_p000 query st = st\<lparr>nav := map show_all_p000 (nav st)\<rparr>"
    if "\<not> truthy (trim (toLowerCase query))"
    using that by (simp_all add: searchDocumentation_def searchDocumentation_p000_def Let_def)
  have visible: "list_all (\<lambda>n. nav_display (show_all n) = ''block'' \<and>
                    list_all (\<lambda>i. item_display i = ''block'') (nav_items (show_all n)) \<and>
                    map data_section (nav_items (show_all n)) = map data_section (nav_items n) \<and>
                    nav_display (show_all_p000 n) = ''block'' \<and>
                    list_all (\<lambda>i. item_display i = ''block'') (nav_items (show_all_p000 n)) \<and>
                    map data_section (nav_items (show_all_p000 n)) = map data_section (nav_items n))
        (nav st)"
    using show_all_visible show_all_p000_visible by (simp add: list_all_iff)
  have hit: "section_record s \<in>
        set (search_results (searchIndex (buildSearchIndex st)) (trim (toLowerCase (section_title s))))"
    "section_record s \<in>
        set (search_results_p000 (searchIndex (buildSearchIndex st))
               (trim (toLowerCase (section_title s))))"
    if "docs st = Some d" and "s \<in> set (sections d)"
    using that section_record_in_index [OF that(2)]
    by (simp_all add: buildSearchIndex_def search_results_def search_results_p000_def
          section_record_def title_in_searchText)
  from reset visible hit show ?thesis by blast
qed

theorem search_reset_and_title_hit_witness:
  "\<not> truthy (trim (toLowerCase ''  '')) \<and> docs filtered_page = Some intro_docs \<and>
   hd (sections intro_docs) \<in> set (sections intro_docs) \<and>
   ascii (section_title (hd (sections intro_docs))) \<and>
   ascii (section_content (hd (sections intro_docs))) \<and>
   searchDocumentation ''  '' filtered_page =
     Inr (filtered_page\<lparr>nav := map show_all (nav filtered_page)\<rparr>) \<and>
   searchDocumentation_p000 ''  '' filtered_page =
     filtered_page\<lparr>nav := map show_all_p000 (nav filtered_page)\<rparr> \<and>
   section_record (hd (sections intro_docs)) \<in>
     set (search_results (searchIndex (buildSearchIndex filtered_page))
            (trim (toLowerCase (section_title (hd (sections intro_docs)))))) \<and>
   section_record (hd (sections intro_docs)) \<in>
     set (search_results_p000 (searchIndex (buildSearchIndex filtered_page))
            (trim (toLowerCase (section_title (hd (sections intro_docs))))))"
proof -
  have a: "\<not> truthy (trim (toLowerCase ''  ''))" by code_simp
  have b: "docs filtered_page = Some intro_docs"
    by (simp add: filtered_page_def intro_page_def)
  have c: "hd (sections intro_docs) \<in> set (sections intro_docs)"
    by (simp add: intro_docs_def)
  have d: "ascii (section_title (hd (sections intro_docs)))"
    "ascii (section_content (hd (sections intro_docs)))"
    by code_simp+
  from search_reset_and_title_hit [of "''  ''" filtered_page intro_docs "hd (sections intro_docs)"]
    a b c d
  show ?thesis by blast
qed

section \<open>Initialisation\<close>

lemma loadDocs_loaded: "loadDocs outcome st = st\<lparr>docs := Some (loaded_docs outcome)\<rparr>"
  by (cases outcome) (auto simp: loadDocs_def loaded_docs_def split: option.split bool.split)

lemma error_not_loading: "error_html m \<noteq> loading_html"
  by (simp add: error_html_def loading_html_def loading_container_def)

lemma section_not_loading: "section_html L s @ mobile \<noteq> loading_html"
  by (simp add: section_html_def section_header_html_def loading_html_def loading_container_def)

lemma renderMobileNavigation_ok: "docs st = Some d \<Longrightarrow> \<exists>m. renderMobileNavigation st = Inr m"
  by (simp add: renderMobileNavigation_def Let_def)

lemma pushState_fields [simp]:
  "docs (pushState url st) = docs st"
  "currentSection (pushState url st) = currentSection st"
  "docsContent (pushState url st) = docsContent st"
  "scrollTarget (pushState url st) = scrollTarget st"
  "isLoading (pushState url st) = isLoading st"
  "innerWidth (pushState url st) = innerWidth st"
  "nav (pushState url st) = nav st"
  by (simp_all add: pushState_def Let_def)

lemma renderSection_ok:
  assumes "docs st = Some d" and "docsContent st \<noteq> None"
  shows "\<exists>mobile. renderSection L s target st =
           Inr (st\<lparr>docsContent := Some (section_html L s @ mobile),
                   scrollTarget := (if truthy_opt target then target else None)\<rparr>)"
proof -
  obtain m where m: "renderMobileNavigation st = Inr m"
    using renderMobileNavigation_ok [OF assms(1)] by blast
  obtain c where c: "docsContent st = Some c"
    using assms(2) by auto
  show ?thesis
  proof (cases "isMobile st")
    case True
    then have "renderSection L s target st =
           Inr (st\<lparr>docsContent := Some (section_html L s @ m),
                   scrollTarget := (if truthy_opt target then target else None)\<rparr>)"
      by (simp add: renderSection_def m c)
    then show ?thesis by blast
  next
    case False
    then have "renderSection L s target st =
           Inr (st\<lparr>docsContent := Some (section_html L s @ []),
                   scrollTarget := (if truthy_opt target then target else None)\<rparr>)"
      by (simp add: renderSection_def c)
    then show ?thesis by blast
  qed
qed

lemma loadSection_unfold:
  assumes "docs st = Some d" and "find (\<lambda>s. section_id s = sectionId) (sections d) = Some s"
  shows "loadSection L sectionId subsectionId updateURL st =
          (case renderSection L s subsectionId
                  (if updateURL then pushState (url_of sectionId subsectionId)
                                       (st\<lparr>currentSection := sectionId\<rparr>)
                   else st\<lparr>currentSection := sectionId\<rparr>) of
             Inl e \<Rightarrow> Inl e
           | Inr st3 \<Rightarrow> Inr (updateActiveNavItem sectionId subsectionId st3))"
  using assms
  by (cases updateURL; cases subsectionId)
     (simp_all add: loadSection_def url_of_def Let_def cong: sum.case_cong)

lemma loadSection_found:
  assumes "docs st = Some d" and "find (\<lambda>s. section_id s = sectionId) (sections d) = Some s"
    and "docsContent st \<noteq> None"
  shows "\<exists>mobile. loadSection L sectionId subsectionId updateURL st =
           Inr (updateActiveNavItem sectionId subsectionId
                  ((if updateURL then pushState (url_of sectionId subsectionId)
                                       (st\<lparr>currentSection := sectionId\<rparr>)
                    else st\<lparr>currentSection := sectionId\<rparr>)
                     \<lparr>docsContent := Some (section_html L s @ mobile),
                      scrollTarget := (if truthy_opt subsectionId then subsectionId else None)\<rparr>))"
proof -
  let ?st2 = "if updateURL then pushState (url_of sectionId subsectionId)
                                       (st\<lparr>currentSection := sectionId\<rparr>)
              else st\<lparr>currentSection := sectionId\<rparr>"
  have "docs ?st2 = Some d" and "docsContent ?st2 \<noteq> None"
    using assms(1,3) by simp_all
  from renderSection_ok [OF this, of L s subsectionId] obtain mobile where
    r: "renderSection L s subsectionId ?st2 =
          Inr (?st2\<lparr>docsContent := Some (section_html L s @ mobile),
                    scrollTarget := (if truthy_opt subsectionId then subsectionId else None)\<rparr>)"
    by blast
  show ?thesis
    unfolding loadSection_unfold [OF assms(1,2)] r by auto
qed

lemma updateActiveNavItem_fields [simp]:
  "docs (updateActiveNavItem a b st) = docs st"
  "currentSection (updateActiveNavItem a b st) = currentSection st"
  "location_hash (updateActiveNavItem a b st) = location_hash st"
  "docsContent (updateActiveNavItem a b st) = docsContent st"
  "scrollTarget (updateActiveNavItem a b st) = scrollTarget st"
  "isLoading (updateActiveNavItem a b st) = isLoading st"
  by (simp_all add: updateActiveNavItem_def Let_def)

lemma init_prepare:
  fixes outcome :: fetch_outcome and page :: system
  assumes "docsContent page \<noteq> None"
  defines "st2 \<equiv> buildNavigation (buildSearchIndex
                    (loadDocs outcome (showLoadingState ((construct page)\<lparr>isLoading := True\<rparr>))))"
  shows "docs st2 = Some (loaded_docs outcome)" and "docsContent st2 = Some loading_html"
    and "location_hash st2 = location_hash page" and "currentSection st2 = ''getting-started''"
  using assms(1)
  by (auto simp: st2_def buildNavigation_def buildSearchIndex_def loadDocs_loaded showLoadingState_def
        construct_def Let_def split: option.splits)

lemma init_unfold:
  assumes "docsContent page \<noteq> None"
  shows "init L outcome (construct page) =
     (let st2 = buildNavigation (buildSearchIndex
                  (loadDocs outcome (showLoadingState ((construct page)\<lparr>isLoading := True\<rparr>))));
          st3 = (case loadSection L (getCurrentSectionFromURL st2) None True st2 of
                   Inl e \<Rightarrow> showError ''Failed to load documentation. Please refresh the page.'' st2
                 | Inr st' \<Rightarrow> st')
      in hideLoadingState (st3\<lparr>isLoading := False\<rparr>))"
proof -
  obtain c where "docsContent (construct page) = Some c"
    using assms by (auto simp: construct_def)
  then show ?thesis
    by (simp add: init_def Let_def)
qed

lemma init_result:
  assumes "docsContent page \<noteq> None"
  shows "docs (init L outcome (construct page)) = Some (loaded_docs outcome) \<and>
         \<not> isLoading (init L outcome (construct page)) \<and>
         (case find (\<lambda>s. section_id s = getCurrentSectionFromURL page) (sections (loaded_docs outcome)) of
            None \<Rightarrow>
              currentSection (init L outcome (construct page)) = ''getting-started'' \<and>
              location_hash (init L outcome (construct page)) = location_hash page \<and>
              scrollTarget (init L outcome (construct page)) = scrollTarget page \<and>
              docsContent (init L outcome (construct page)) = Some (error_html ''Section not found.'')
          | Some s \<Rightarrow>
              currentSection (init L outcome (construct page)) = getCurrentSectionFromURL page \<and>
              scrollTarget (init L outcome (construct page)) = None \<and>
              (\<exists>mobile. docsContent (init L outcome (construct page)) = Some (section_html L s @ mobile)))"
proof -
  define st2 where "st2 = buildNavigation (buildSearchIndex
                    (loadDocs outcome (showLoadingState ((construct page)\<lparr>isLoading := True\<rparr>))))"
  note p = init_prepare [OF assms, of outcome, folded st2_def]
  have sc: "scrollTarget st2 = scrollTarget page"
    using assms
    by (auto simp: st2_def buildNavigation_def buildSearchIndex_def loadDocs_loaded showLoadingState_def
          construct_def Let_def split: option.splits)
  have u: "init L outcome (construct page) =
           hideLoadingState ((case loadSection L (getCurrentSectionFromURL st2) None True st2 of
                   Inl e \<Rightarrow> showError ''Failed to load documentation. Please refresh the page.'' st2
                 | Inr st' \<Rightarrow> st')\<lparr>isLoading := False\<rparr>)"
    unfolding init_unfold [OF assms] st2_def Let_def ..
  have g: "getCurrentSectionFromURL st2 = getCurrentSectionFromURL page"
    by (simp add: getCurrentSectionFromURL_def p)
  show ?thesis
  proof (cases "find (\<lambda>s. section_id s = getCurrentSectionFromURL page) (sections (loaded_docs outcome))")
    case None
    then have "loadSection L (getCurrentSectionFromURL st2) None True st2 =
                 Inr (st2\<lparr>docsContent := Some (error_html ''Section not found.'')\<rparr>)"
      by (simp add: loadSection_def g p showError_def)
    then show ?thesis
      unfolding u using None p sc
      by (simp add: hideLoadingState_def error_not_loading)
  next
    case (Some s)
    have "docsContent st2 \<noteq> None" by (simp add: p)
    from loadSection_found [OF p(1) Some [folded g] this, of L None True]
    obtain mobile where
      "loadSection L (getCurrentSectionFromURL st2) None True st2 =
         Inr (updateActiveNavItem (getCurrentSectionFromURL st2) None
                ((pushState (url_of (getCurrentSectionFromURL st2) None)
                    (st2\<lparr>currentSection := getCurrentSectionFromURL st2\<rparr>))
                   \<lparr>docsContent := Some (section_html L s @ mobile),
                    scrollTarget := None\<rparr>))"
      by (auto simp: truthy_opt_def)
    then show ?thesis
      unfolding u using Some p
      by (simp add: hideLoadingState_def section_not_loading g)
  qed
qed

section \<open>Fallback document and location fragment\<close>

lemma lt_not_space: "\<not> is_space CHR ''<''"
  by (simp add: is_space_def)

lemma markup_not_blank: "CHR ''<'' \<in> set x \<Longrightarrow> \<not> list_all is_space x"
  using lt_not_space by (auto simp: list_all_iff)

lemma error_html_markup: "CHR ''<'' \<in> set (error_html m)"
  by (simp add: error_html_def)

lemma section_html_markup: "CHR ''<'' \<in> set (section_html L s @ mobile)"
  by (simp add: section_html_def section_header_html_def)

lemma sample_ids:
  "section_id sample_getting_started = ''getting-started''"
  "section_id sample_api = ''api''"
  "section_id sample_examples = ''examples''"
  by (simp_all add: sample_getting_started_def sample_api_def sample_examples_def)

lemma find_sample_default:
  "find (\<lambda>s. section_id s = ''getting-started'') (sections getSampleDocs) = Some sample_getting_started"
  by (simp add: getSampleDocs_def sample_ids)

lemma loaded_docs_failed: "fetch_failed outcome \<Longrightarrow> loaded_docs outcome = getSampleDocs"
  by (cases outcome) (auto simp: fetch_failed_def loaded_docs_def split: bool.split)

lemma init_sample:
  assumes "fetch_failed outcome" and "docsContent page \<noteq> None"
  shows "docs (init L outcome (construct page)) = Some getSampleDocs \<and>
         sections getSampleDocs \<noteq> [] \<and>
         (\<exists>html. docsContent (init L outcome (construct page)) = Some html \<and> \<not> list_all is_space html) \<and>
         (location_hash page = [] \<longrightarrow>
            currentSection (init L outcome (construct page)) = ''getting-started'' \<and>
            (\<exists>mobile. docsContent (init L outcome (construct page)) =
                        Some (section_html L sample_getting_started @ mobile)))"
proof -
  let ?st = "init L outcome (construct page)"
  note l = loaded_docs_failed [OF assms(1)]
  note r = init_result [OF assms(2), of L outcome, unfolded l]
  have d: "docs ?st = Some getSampleDocs"
    using r by simp
  have n: "sections getSampleDocs \<noteq> []"
    by (simp add: getSampleDocs_def)
  have c: "\<exists>html. docsContent ?st = Some html \<and> \<not> list_all is_space html"
  proof (cases "find (\<lambda>s. section_id s = getCurrentSectionFromURL page) (sections getSampleDocs)")
    case None
    with r have "docsContent ?st = Some (error_html ''Section not found.'')" by simp
    then show ?thesis
      using markup_not_blank [OF error_html_markup] by simp
  next
    case (Some s)
    with r obtain mobile where "docsContent ?st = Some (section_html L s @ mobile)" by auto
    then show ?thesis
      using markup_not_blank [OF section_html_markup] by simp
  qed
  have e: "currentSection ?st = ''getting-started'' \<and>
           (\<exists>mobile. docsContent ?st = Some (section_html L sample_getting_started @ mobile))"
    if "location_hash page = []"
  proof -
    from that have "getCurrentSectionFromURL page = ''getting-started''"
      by (simp add: getCurrentSectionFromURL_def truthy_def)
    with r find_sample_default show ?thesis by simp
  qed
  from d n c e show ?thesis by blast
qed

lemma loadDocs_p000_failed:
  assumes "outcome = NetworkError \<or> outcome = Response ok None" and "docsContent st \<noteq> None"
  shows "loadDocs_p000 outcome st =
           st\<lparr>docsContent :=
                Some (error_html_p000 ''Failed to load documentation. Please refresh the page.'')\<rparr>"
  using assms by (auto simp: loadDocs_p000_def showError_p000_def)

text \<open>
  Claim C4, amended. In \<^verbatim>\<open>script.js\<close>, when the fetch of the document fails
  (network error, response not ok, or a body that does not parse), initialisation
  loads the embedded sample document, which has sections, and the content element
  ends with markup that is not blank: with an empty fragment it is the rendered
  first sample section. The \<^verbatim>\<open>loadDocs\<close> of \<^verbatim>\<open>part_000\<close> has no sample document:
  when the request fails or the body does not parse it shows its error panel and
  leaves the document unset, and it takes the document of any response whose body
  parses, ok or not.
\<close>

theorem init_falls_back_to_sample:
  "(fetch_failed outcome \<and> docsContent page \<noteq> None \<longrightarrow>
      docs (init L outcome (construct page)) = Some getSampleDocs \<and>
      sections getSampleDocs \<noteq> [] \<and>
      (\<exists>html. docsContent (init L outcome (construct page)) = Some html \<and> \<not> list_all is_space html) \<and>
      (location_hash page = [] \<longrightarrow>
         currentSection (init L outcome (construct page)) = ''getting-started'' \<and>
         (\<exists>mobile. docsContent (init L outcome (construct page)) =
                     Some (section_html L sample_getting_started @ mobile)))) \<and>
   ((outcome = NetworkError \<or> outcome = Response ok None) \<and> docsContent page \<noteq> None \<longrightarrow>
      loadDocs_p000 outcome (construct_p000 page) =
        (construct_p000 page)\<lparr>docsContent :=
           Some (error_html_p000 ''Failed to load documentation. Please refresh the page.'')\<rparr> \<and>
      docs (loadDocs_p000 outcome (construct_p000 page)) = None) \<and>
   loadDocs_p000 (Response ok (Some json)) st = st\<lparr>docs := Some json\<rparr>"
proof -
  have a: "loadDocs_p000 outcome (construct_p000 page) =
        (construct_p000 page)\<lparr>docsContent :=
           Some (error_html_p000 ''Failed to load documentation. Please refresh the page.'')\<rparr> \<and>
      docs (loadDocs_p000 outcome (construct_p000 page)) = None"
    if "outcome = NetworkError \<or> outcome = Response ok None" and "docsContent page \<noteq> None"
  proof -
    have "docsContent (construct_p000 page) \<noteq> None"
      using that(2) by (simp add: construct_p000_def)
    from loadDocs_p000_failed [OF that(1) this] show ?thesis
      by (simp add: construct_p000_def)
  qed
  have b: "loadDocs_p000 (Response ok (Some json)) st = st\<lparr>docs := Some json\<rparr>"
    by (simp add: loadDocs_p000_def)
  show ?thesis
  proof (intro conjI)
    show "fetch_failed outcome \<and> docsContent page \<noteq> None \<longrightarrow>
      docs (init L outcome (construct page)) = Some getSampleDocs \<and>
      sections getSampleDocs \<noteq> [] \<and>
      (\<exists>html. docsContent (init L outcome (construct page)) = Some html \<and> \<not> list_all is_space html) \<and>
      (location_hash page = [] \<longrightarrow>
         currentSection (init L outcome (construct page)) = ''getting-started'' \<and>
         (\<exists>mobile. docsContent (init L outcome (construct page)) =
                     Some (section_html L sample_getting_started @ mobile)))"
      using init_sample [of outcome page L] by blast
    show "(outcome = NetworkError \<or> outcome = Response ok None) \<and> docsContent page \<noteq> None \<longrightarrow>
      loadDocs_p000 outcome (construct_p000 page) =
        (construct_p000 page)\<lparr>docsContent :=
           Some (error_html_p000 ''Failed to load documentation. Please refresh the page.'')\<rparr> \<and>
      docs (loadDocs_p000 outcome (construct_p000 page)) = None"
    proof (intro impI)
      assume h: "(outcome = NetworkError \<or> outcome = Response ok None) \<and> docsContent page \<noteq> None"
      from a [OF conjunct1 [OF h] conjunct2 [OF h]]
      show "loadDocs_p000 outcome (construct_p000 page) =
        (construct_p000 page)\<lparr>docsContent :=
           Some (error_html_p000 ''Failed to load documentation. Please refresh the page.'')\<rparr> \<and>
      docs (loadDocs_p000 outcome (construct_p000 page)) = None" .
    qed
    show "loadDocs_p000 (Response ok (Some json)) st = st\<lparr>docs := Some json\<rparr>"
      by (rule b)
  qed
qed

theorem init_falls_back_to_sample_witness:
  "fetch_failed (Response False None) \<and> docsContent blank_page \<noteq> None \<and>
   location_hash blank_page = [] \<and>
   docs (init example_operands (Response False None) (construct blank_page)) = Some getSampleDocs \<and>
   currentSection (init example_operands (Response False None) (construct blank_page)) =
     ''getting-started'' \<and>
   docs (loadDocs_p000 (Response False None) (construct_p000 blank_page)) = None \<and>
   docsContent (loadDocs_p000 (Response False None) (construct_p000 blank_page)) =
     Some (error_html_p000 ''Failed to load documentation. Please refresh the page.'')"
proof -
  have a: "fetch_failed (Response False None)" by (simp add: fetch_failed_def)
  have b: "docsContent blank_page \<noteq> None" by (simp add: blank_page_def)
  have c: "location_hash blank_page = []" by (simp add: blank_page_def)
  note t = init_falls_back_to_sample [of "Response False None" blank_page example_operands False]
  from t a b c
  have "docs (init example_operands (Response False None) (construct blank_page)) = Some getSampleDocs \<and>
        currentSection (init example_operands (Response False None) (construct blank_page)) =
          ''getting-started''"
    by blast
  moreover from t b
  have "loadDocs_p000 (Response False None) (construct_p000 blank_page) =
        (construct_p000 blank_page)\<lparr>docsContent :=
           Some (error_html_p000 ''Failed to load documentation. Please refresh the page.'')\<rparr> \<and>
      docs (loadDocs_p000 (Response False None) (construct_p000 blank_page)) = None"
    by blast
  ultimately show ?thesis
    using a b c by (simp add: construct_p000_def)
qed

text \<open>
  Claim C4 as stated fails in \<^verbatim>\<open>part_000\<close>: after a network error the document
  is still unset, and initialisation ends in a type error when \<^verbatim>\<open>loadSection\<close>
  reads the sections of the unset document.
\<close>

theorem loadDocs_p000_counterexample:
  "docs (loadDocs_p000 NetworkError (construct_p000 blank_page)) = None \<and>
   init_p000 NetworkError (construct_p000 blank_page) = Inl TypeError"
  by (simp add: init_p000_def loadDocs_p000_def showError_p000_def construct_p000_def blank_page_def
        buildSearchIndex_def buildNavigation_def loadSection_p000_def Let_def)

lemma intro_found: "find (\<lambda>s. section_id s = ''intro'') (sections intro_docs) = Some (hd (sections intro_docs))"
  by (simp add: intro_docs_def)

text \<open>
  Claim C2 fails in the script: \<^verbatim>\<open>loadSection('intro', 'step-one')\<close> writes the
  fragment \<^verbatim>\<open>#intro-step-one\<close>; a reload, or the \<^verbatim>\<open>popstate\<close> handler, reads the
  whole fragment as a section id, finds no such section and shows the error
  panel, so neither the section nor the subsection is restored.
\<close>

theorem fragment_reload_loses_section:
  "map_sum id location_hash (loadSection example_operands ''intro'' (Some ''step-one'') True intro_page) =
     Inr ''#intro-step-one'' \<and>
   map_sum id currentSection (loadSection example_operands ''intro'' (Some ''step-one'') True intro_page) =
     Inr ''intro'' \<and>
   location_hash reloaded_page = ''#intro-step-one'' \<and>
   getCurrentSectionFromURL reloaded_page = ''intro-step-one'' \<and>
   currentSection (init example_operands (Response True (Some intro_docs)) (construct reloaded_page)) =
     ''getting-started'' \<and>
   scrollTarget (init example_operands (Response True (Some intro_docs)) (construct reloaded_page)) = None \<and>
   docsContent (init example_operands (Response True (Some intro_docs)) (construct reloaded_page)) =
     Some (error_html ''Section not found.'') \<and>
   on_popstate example_operands (intro_page\<lparr>location_hash := ''#intro-step-one''\<rparr>) =
     Inr (intro_page\<lparr>location_hash := ''#intro-step-one'',
                     docsContent := Some (error_html ''Section not found.'')\<rparr>)"
proof -
  have a: "docs intro_page = Some intro_docs" by (simp add: intro_page_def)
  have n: "docsContent intro_page \<noteq> None" by (simp add: intro_page_def)
  have f: "url_fragment ''intro-step-one'' = ''intro-step-one''" by code_simp
  from loadSection_found [OF a intro_found n, of example_operands "Some ''step-one''" True]
  have fwd: "map_sum id location_hash
               (loadSection example_operands ''intro'' (Some ''step-one'') True intro_page) =
             Inr ''#intro-step-one''"
    and cur: "map_sum id currentSection
               (loadSection example_operands ''intro'' (Some ''step-one'') True intro_page) =
             Inr ''intro''"
    by (auto simp: url_of_def truthy_def pushState_def f)
  have c: "docsContent reloaded_page \<noteq> None"
    by (simp add: reloaded_page_def blank_page_def)
  have h: "location_hash reloaded_page = ''#intro-step-one''"
    by (simp add: reloaded_page_def)
  have g: "getCurrentSectionFromURL reloaded_page = ''intro-step-one''"
    by (simp add: getCurrentSectionFromURL_def reloaded_page_def truthy_def)
  then have "find (\<lambda>s. section_id s = getCurrentSectionFromURL reloaded_page)
               (sections (loaded_docs (Response True (Some intro_docs)))) = None"
    by (simp add: loaded_docs_def intro_docs_def)
  with init_result [OF c, of example_operands "Response True (Some intro_docs)"]
  have r: "currentSection (init example_operands (Response True (Some intro_docs)) (construct reloaded_page)) =
          ''getting-started'' \<and>
        scrollTarget (init example_operands (Response True (Some intro_docs)) (construct reloaded_page)) =
          scrollTarget reloaded_page \<and>
        docsContent (init example_operands (Response True (Some intro_docs)) (construct reloaded_page)) =
          Some (error_html ''Section not found.'')"
    by simp
  have s: "scrollTarget reloaded_page = None"
    by (simp add: reloaded_page_def blank_page_def)
  have "find (\<lambda>s. section_id s = ''intro-step-one'') (sections intro_docs) = None"
    by (simp add: intro_docs_def)
  then have p: "on_popstate example_operands (intro_page\<lparr>location_hash := ''#intro-step-one''\<rparr>) =
     Inr (intro_page\<lparr>location_hash := ''#intro-step-one'',
                     docsContent := Some (error_html ''Section not found.'')\<rparr>)"
    using a n
    by (auto simp: on_popstate_def getCurrentSectionFromURL_def truthy_def loadSection_def
          showError_def)
  from fwd cur h g r s p show ?thesis by simp
qed

lemma pushState_encodes:
  "location_hash (pushState ''#my section'' st) = ''#my%20section''"
  "location_hash (pushState ''#intro'' st) = ''#intro''"
  "location_hash (pushState ''#'' st) = []"
proof -
  have "url_fragment ''my section'' = ''my%20section''" "url_fragment ''intro'' = ''intro''"
    "url_fragment [] = []"
    by code_simp+
  then show "location_hash (pushState ''#my section'' st) = ''#my%20section''"
    "location_hash (pushState ''#intro'' st) = ''#intro''"
    "location_hash (pushState ''#'' st) = []"
    by (simp_all add: pushState_def)
qed

section \<open>The toggle controllers\<close>

lemma menu_toggle_starts_animation: "\<not> isAnimating m \<Longrightarrow> isAnimating (menu_toggle m)"
  by (simp add: menu_toggle_def Let_def)

lemma menu_toggle_flips: "\<not> isAnimating m \<Longrightarrow> isOpen (menu_toggle m) = (\<not> isOpen m)"
  by (simp add: menu_toggle_def Let_def)

lemma menu_toggle_guard: "isAnimating a \<Longrightarrow> menu_toggle a = a"
  by (simp add: menu_toggle_def)

lemma menu_toggle_twice:
  assumes "\<not> isAnimating m"
  shows "menu_toggle (menu_toggle m) = menu_toggle m"
    and "isOpen (menu_toggle (menu_toggle m)) = (\<not> isOpen m)"
proof -
  have "isAnimating (menu_toggle m)"
    using assms by (rule menu_toggle_starts_animation)
  then show "menu_toggle (menu_toggle m) = menu_toggle m"
    by (rule menu_toggle_guard)
  with menu_toggle_flips [OF assms] show "isOpen (menu_toggle (menu_toggle m)) = (\<not> isOpen m)"
    by simp
qed

lemma menu_toggle_p000_flips:
  "isOpen (menu_toggle_p000 n) = (\<not> isOpen n)"
  "isAnimating (menu_toggle_p000 n) = isAnimating n"
  "timers (menu_toggle_p000 n) = timers n"
  by (simp_all add: menu_toggle_p000_def Let_def)

text \<open>
  Claim C8, amended. In \<^verbatim>\<open>script.js\<close>, while a transition of the mobile menu is
  in progress, \<open>toggle\<close> changes nothing; so a second call inside the transition
  window of a first call leaves the menu where the first call put it: open
  exactly if it was closed before. The \<open>toggle\<close> of \<^verbatim>\<open>part_000\<close> keeps no record of
  a transition and starts no timer: every call flips the menu, and two calls in a
  row bring it back to where it was.
\<close>

theorem menu_toggle_reentrant:
  "(isAnimating a \<longrightarrow> menu_toggle a = a) \<and>
   (\<not> isAnimating m \<longrightarrow>
      menu_toggle (menu_toggle m) = menu_toggle m \<and>
      isOpen (menu_toggle (menu_toggle m)) = (\<not> isOpen m)) \<and>
   isOpen (menu_toggle_p000 n) = (\<not> isOpen n) \<and>
   isOpen (menu_toggle_p000 (menu_toggle_p000 n)) = isOpen n \<and>
   isAnimating (menu_toggle_p000 n) = isAnimating n \<and>
   timers (menu_toggle_p000 n) = timers n"
  using menu_toggle_guard [of a] menu_toggle_twice [of m] menu_toggle_p000_flips [of n]
    menu_toggle_p000_flips(1) [of "menu_toggle_p000 n"]
  by simp

theorem menu_toggle_reentrant_witness:
  "isAnimating menu_animating \<and> \<not> isAnimating menu_closed \<and>
   menu_toggle menu_animating = menu_animating \<and>
   menu_toggle (menu_toggle menu_closed) = menu_toggle menu_closed \<and>
   isOpen (menu_toggle (menu_toggle menu_closed)) = (\<not> isOpen menu_closed) \<and>
   isOpen (menu_toggle_p000 (menu_toggle_p000 menu_closed)) = isOpen menu_closed"
proof -
  have a: "isAnimating menu_animating" by (simp add: menu_animating_def)
  have m: "\<not> isAnimating menu_closed" by (simp add: menu_closed_def)
  from menu_toggle_reentrant [of menu_animating menu_closed menu_closed] a m show ?thesis by blast
qed

text \<open>
  Claim C8 as stated fails in \<^verbatim>\<open>part_000\<close>: the first call opens the closed
  menu and a second call right after it closes it again.
\<close>

theorem menu_toggle_p000_counterexample:
  "isOpen (menu_toggle_p000 menu_closed) \<and>
   \<not> isOpen (menu_toggle_p000 (menu_toggle_p000 menu_closed)) \<and>
   menu_toggle_p000 (menu_toggle_p000 menu_closed) = menu_closed"
  by (simp add: menu_toggle_p000_def menu_closed_def Let_def)

lemma theme_of_applyTheme [simp]: "theme (applyTheme t tm) = theme tm"
  and stored_of_applyTheme [simp]: "stored_theme (applyTheme t tm) = stored_theme tm"
  and readable_of_applyTheme [simp]: "storage_readable (applyTheme t tm) = storage_readable tm"
  and writable_of_applyTheme [simp]: "storage_writable (applyTheme t tm) = storage_writable tm"
  by (simp_all add: applyTheme_def)

lemma pinned_toggle: "storage_readable tm \<Longrightarrow> storage_writable tm \<Longrightarrow> pinned (theme_toggle tm)"
  by (simp add: pinned_def theme_toggle_def storeTheme_def Let_def truthy_opt_def truthy_def)

lemma pinned_step: "pinned tm \<Longrightarrow> pinned (theme_step ev tm)"
  by (cases ev)
     (simp_all add: pinned_def theme_toggle_def storeTheme_def Let_def truthy_opt_def truthy_def
        on_system_change_def getStoredTheme_def)

lemma pinned_run: "pinned tm \<Longrightarrow> pinned (theme_run evs tm)"
  unfolding theme_run_def by (induction evs arbitrary: tm) (simp_all add: pinned_step)

lemma pinned_ignores_system: "pinned tm \<Longrightarrow> on_system_change b tm = tm"
  by (simp add: pinned_def on_system_change_def getStoredTheme_def)

lemma unpinned_tracks:
  "\<not> truthy_opt (getStoredTheme tm) \<Longrightarrow> theme (on_system_change b tm) = getSystemTheme b"
  by (simp add: on_system_change_def getSystemTheme_def Let_def)

lemma unpinned_stays:
  "\<not> truthy_opt (getStoredTheme tm) \<Longrightarrow> \<not> truthy_opt (getStoredTheme (on_system_change b tm))"
  by (auto simp: on_system_change_def getStoredTheme_def Let_def truthy_opt_def split: if_splits)

lemma unpinned_run:
  "\<not> truthy_opt (getStoredTheme tm) \<Longrightarrow>
   \<not> truthy_opt (getStoredTheme (theme_run (map SystemChange bs) tm))"
  unfolding theme_run_def by (induction bs arbitrary: tm) (simp_all add: unpinned_stays)

text \<open>
  Claim C7, amended. When the preference store can be read and written, an
  explicit toggle writes the chosen theme to the store, and after it, whatever
  toggles and system changes follow, a change of the colour scheme of the system
  leaves the theme manager as it is. With no stored preference, after any number
  of system changes, a system change sets the theme to the scheme of the system.
\<close>

theorem theme_pins_after_toggle:
  assumes "storage_readable tm" and "storage_writable tm"
    and "\<not> truthy_opt (getStoredTheme tm')"
  shows "stored_theme (theme_toggle tm) = Some (theme (theme_toggle tm)) \<and>
         on_system_change b (theme_run evs (theme_toggle tm)) = theme_run evs (theme_toggle tm) \<and>
         theme (on_system_change b' (theme_run (map SystemChange bs) tm')) = getSystemTheme b'"
proof -
  have "stored_theme (theme_toggle tm) = Some (theme (theme_toggle tm))"
    using assms(2) by (simp add: theme_toggle_def storeTheme_def Let_def)
  moreover have "pinned (theme_run evs (theme_toggle tm))"
    using assms(1,2) by (intro pinned_run pinned_toggle)
  then have "on_system_change b (theme_run evs (theme_toggle tm)) = theme_run evs (theme_toggle tm)"
    by (rule pinned_ignores_system)
  moreover have "theme (on_system_change b' (theme_run (map SystemChange bs) tm')) = getSystemTheme b'"
    using assms(3) by (intro unpinned_tracks unpinned_run)
  ultimately show ?thesis by simp
qed

text \<open>
  Claim C7 as stated fails when the store rejects the write, which the script
  catches: the toggle leaves the store empty and the next system change sets the
  theme.
\<close>

theorem theme_not_pinned_counterexample:
  "stored_theme (theme_toggle page_unwritable) \<noteq> Some (theme (theme_toggle page_unwritable)) \<and>
   theme (theme_toggle page_unwritable) = ''dark'' \<and>
   theme (on_system_change False (theme_toggle page_unwritable)) = ''light''"
  by (simp add: page_unwritable_def theme_toggle_def storeTheme_def applyTheme_def
        on_system_change_def getStoredTheme_def truthy_opt_def Let_def)

theorem theme_pins_after_toggle_witness:
  "storage_readable page_fresh \<and> storage_writable page_fresh \<and>
   \<not> truthy_opt (getStoredTheme page_fresh) \<and>
   stored_theme (theme_toggle page_fresh) = Some ''dark'' \<and>
   theme (on_system_change False (theme_run [SystemChange True, Toggle] (theme_toggle page_fresh))) = ''light'' \<and>
   theme (on_system_change True (theme_run [SystemChange False] page_fresh)) = ''dark''"
proof -
  have r: "storage_readable page_fresh" and w: "storage_writable page_fresh"
    and n: "\<not> truthy_opt (getStoredTheme page_fresh)"
    by (simp_all add: page_fresh_def page_unwritable_def getStoredTheme_def truthy_opt_def)
  have t: "theme (theme_toggle page_fresh) = ''dark''"
    by (simp add: page_fresh_def page_unwritable_def theme_toggle_def storeTheme_def Let_def)
  have t2: "theme (theme_run [SystemChange True, Toggle] (theme_toggle page_fresh)) = ''light''"
    by (simp add: page_fresh_def page_unwritable_def theme_toggle_def storeTheme_def Let_def
          theme_run_def on_system_change_def getStoredTheme_def truthy_opt_def truthy_def applyTheme_def)
  from theme_pins_after_toggle [OF r w n, of False "[SystemChange True, Toggle]" True "[False]"]
  show ?thesis using r w n t t2 by (simp add: getSystemTheme_def)
qed

section \<open>The fence stage\<close>

lemma escape_char_chars: "set (escape_char c) \<subseteq> ({c} - {CHR ''<'', CHR ''>''}) \<union> entity_chars"
  by (simp add: escape_char_def entity_chars_def)

lemma nbsp_chars: "set ''&nbsp;'' \<subseteq> entity_chars"
  by (simp add: entity_chars_def)

lemma escapeHtml_chars:
  "set (escapeHtml x) \<subseteq> (set x - {CHR ''<'', CHR ''>''}) \<union> entity_chars"
proof (induction x rule: escapeHtml.induct)
  case 1
  show ?case by simp
next
  case (2 c)
  show ?case using escape_char_chars [of c] by simp
next
  case (3 c d cs)
  show ?case
  proof (cases "c = CHR 0xC2 \<and> d = CHR 0xA0")
    case True
    then have "set (escapeHtml (c # d # cs)) = set ''&nbsp;'' \<union> set (escapeHtml cs)"
      by simp
    with "3.IH"(1) [OF True] nbsp_chars show ?thesis by auto
  next
    case False
    then have "set (escapeHtml (c # d # cs)) = set (escape_char c) \<union> set (escapeHtml (d # cs))"
      by auto
    with "3.IH"(2) [OF False] escape_char_chars [of c] show ?thesis by auto
  qed
qed

lemma entity_chars_plain:
  "CHR ''<'' \<notin> entity_chars" "CHR ''>'' \<notin> entity_chars" "CHR 0x60 \<notin> entity_chars"
  "CHR ''*'' \<notin> entity_chars" "CHR ''['' \<notin> entity_chars" "CHR 0x0A \<notin> entity_chars"
  "CHR 0x0D \<notin> entity_chars"
  by (simp_all add: entity_chars_def)

lemma escapeHtml_no_markup:
  "CHR ''<'' \<notin> set (escapeHtml x)" "CHR ''>'' \<notin> set (escapeHtml x)"
  using escapeHtml_chars [of x] entity_chars_plain by auto



lemma lazy_any_end: "rmatch (Lazy (Cls any_char)) (p, [], g) = [(p, [], g)]"
  by (subst rmatch.simps(7)) simp









lemma fence_replacement_block:
  "fence_replacement L m g =
     (let language = (case map_of g 1 of None \<Rightarrow> ''text'' | Some lang \<Rightarrow> language_of lang)
      in code_block language (highlightCode L (trim (grp g 2)) language))"
  by (simp add: fence_replacement_def code_block_def language_of_def truthy_def Let_def
        split: option.split)

lemma fence_replacement_p000_block:
  "fence_replacement_p000 m g =
     code_block_p000 (case map_of g 1 of None \<Rightarrow> ''Code'' | Some lang \<Rightarrow> language_of_p000 lang)
       (escapeHtml (trim (grp g 2)))"
  by (simp add: fence_replacement_p000_def code_block_p000_def language_of_p000_def truthy_def Let_def
        split: option.split)

lemma highlightCode_other:
  "language \<notin> {''lua'', ''javascript'', ''js''} \<Longrightarrow> highlightCode L code language = escapeHtml code"
  by (simp add: highlightCode_def Let_def)




section \<open>Code blocks through the later stages\<close>

























section \<open>Inline code\<close>

lemma inline_match:
  assumes "x \<noteq> []" and "CHR 0x60 \<notin> set x"
  shows "\<exists>rest. rmatch re_inline_code (None, inline_code x, []) =
           (Some CHR 0x60, [], [(1, x)]) # rest"
proof -
  from assms obtain c cs where x: "x = c # cs" and c: "c \<noteq> CHR 0x60" and cs: "CHR 0x60 \<notin> set cs"
    by (cases x) auto
  let ?P = "isnt CHR 0x60"
  have d: "dropWhile ?P (cs @ [CHR 0x60]) = [CHR 0x60]"
    using cs by (induction cs) (auto simp: isnt_def)
  from star_cls_head [of ?P "Some c" "cs @ [CHR 0x60]" "[]"] obtain q rest where
    s: "rmatch (Star (Cls ?P)) (Some c, cs @ [CHR 0x60], []) = (q, [CHR 0x60], []) # rest"
    unfolding d by blast
  have a: "rmatch (Chr CHR 0x60) (None, inline_code x, []) = [(Some CHR 0x60, x @ [CHR 0x60], [])]"
    by (simp add: inline_code_def)
  have p: "rmatch (plus (Cls ?P)) (Some CHR 0x60, x @ [CHR 0x60], []) = (q, [CHR 0x60], []) # rest"
    using c s by (simp add: plus_def x isnt_def)
  have k: "consumed (x @ [CHR 0x60]) [CHR 0x60] = x"
    by (simp add: consumed_def)
  have g: "\<exists>rest'. rmatch (Grp 1 (plus (Cls ?P))) (Some CHR 0x60, x @ [CHR 0x60], []) =
             (q, [CHR 0x60], [(1, x)]) # rest'"
    by (simp add: p k del: One_nat_def)
  then obtain rest' where
    g': "rmatch (Grp 1 (plus (Cls ?P))) (Some CHR 0x60, x @ [CHR 0x60], []) =
           (q, [CHR 0x60], [(1, x)]) # rest'"
    by blast
  have e: "rmatch (seqs [Chr CHR 0x60]) (q, [CHR 0x60], [(1, x)]) = [(Some CHR 0x60, [], [(1, x)])]"
    by (simp add: rmatch_seqs_Cons rmatch_seqs_Nil)
  have "rmatch re_inline_code (None, inline_code x, []) =
          concat (map (rmatch (seqs [Grp 1 (plus (Cls ?P)), Chr CHR 0x60]))
                    (rmatch (Chr CHR 0x60) (None, inline_code x, [])))"
    unfolding re_inline_code_def by (rule rmatch_seqs_Cons)
  also have "\<dots> = rmatch (seqs [Grp 1 (plus (Cls ?P)), Chr CHR 0x60])
                      (Some CHR 0x60, x @ [CHR 0x60], [])"
    by (simp only: a list.map concat.simps append_Nil2)
  also have "\<dots> = concat (map (rmatch (seqs [Chr CHR 0x60]))
                       (rmatch (Grp 1 (plus (Cls ?P))) (Some CHR 0x60, x @ [CHR 0x60], [])))"
    by (rule rmatch_seqs_Cons)
  also have "\<dots> = (Some CHR 0x60, [], [(1, x)]) #
                      concat (map (rmatch (seqs [Chr CHR 0x60])) rest')"
    by (simp only: g' list.map concat.simps e append_Cons append_Nil)
  finally show ?thesis by blast
qed

lemma inline_stage:
  assumes "x \<noteq> []" and "CHR 0x60 \<notin> set x"
  shows "replace_all re_inline_code f (inline_code x) = f (inline_code x) [(1, x)]"
proof -
  from inline_match [OF assms] obtain rest where
    m: "rmatch re_inline_code (None, inline_code x, []) = (Some CHR 0x60, [], [(1, x)]) # rest"
    by blast
  have e: "rmatch re_inline_code (Some CHR 0x60, [], []) = []"
    by (simp add: re_inline_code_def rmatch_seqs_Cons)
  have n: "inline_code x \<noteq> []" by (simp add: inline_code_def)
  show ?thesis
    unfolding replace_all_def
    by (subst replace_from.simps) (simp add: m n consumed_def replace_from_end [OF e])
qed

lemma fence_needs_pair:
  assumes "no_pair CHR 0x60 CHR 0x60 s"
  shows "replace_all re_fence f s = s"
  unfolding replace_all_def
  using assms
proof (rule replace_from_no_pair)
  fix p' s' assume "\<not> prefix [CHR 0x60, CHR 0x60] s'"
  moreover have "prefix [CHR 0x60, CHR 0x60] ''```''" by simp
  ultimately have "\<not> prefix ''```'' s'"
    using prefix_order.trans by blast
  then have "match_prefix ''```'' s' = None"
    by (rule match_prefix_None)
  then show "rmatch re_fence (p', s', []) = []"
    by (simp add: re_fence_def rmatch_seqs_Cons rmatch_lit)
qed

lemma inline_no_fence:
  assumes "x \<noteq> []" and "CHR 0x60 \<notin> set x"
  shows "replace_all re_fence f (inline_code x) = inline_code x"
proof -
  have "no_pair CHR 0x60 CHR 0x60 x"
    using assms(2) by (rule no_pair_absent)
  moreover have "hd x \<in> set x" "last x \<in> set x"
    using assms(1) by simp_all
  with assms(2) have "hd x \<noteq> CHR 0x60" "last x \<noteq> CHR 0x60"
    by metis+
  ultimately have "no_pair CHR 0x60 CHR 0x60 (inline_code x)"
    using assms(1) by (simp add: inline_code_def no_pair_Cons no_pair_append)
  then show ?thesis by (rule fence_needs_pair)
qed

lemma plain_wrapped:
  assumes "inline_text x"
    and "last (CHR ''<'' # r) = CHR ''>''" and "no_pair CHR ''<'' CHR ''l'' (CHR ''<'' # r)"
    and "list_all (\<lambda>c. c \<notin> set ''`*['' \<and> \<not> is_line_terminator c) r"
  shows "plain_text (CHR ''<'' # r @ x @ ''</code>'')"
proof -
  from assms(1) have x: "x \<noteq> []"
    and c: "list_all (\<lambda>c. c \<notin> set ''`*['' \<and> \<not> is_line_terminator c) x"
    and p: "no_pair CHR ''<'' CHR ''l'' x"
    by (simp_all add: inline_text_def)
  have "no_pair CHR ''<'' CHR ''l'' ((CHR ''<'' # r) @ x @ ''</code>'')"
    using p assms(2,3) x by (simp only: no_pair_append) (simp add: no_pair_Cons)
  then have "no_pair CHR ''<'' CHR ''l'' (CHR ''<'' # r @ x @ ''</code>'')"
    by simp
  moreover have "list_all (\<lambda>c. c \<notin> set ''`*['' \<and> \<not> is_line_terminator c) (r @ x @ ''</code>'')"
    using c assms(4) by (simp add: is_line_terminator_def)
  ultimately show ?thesis
    unfolding plain_text_def
    by (simp add: startsWith_def is_digit_def is_line_terminator_def)
qed

lemma inline_text_chars:
  assumes "inline_text x"
  shows "x \<noteq> []" and "CHR 0x60 \<notin> set x"
  using assms by (auto simp: inline_text_def list_all_iff)

lemma inline_pipeline:
  assumes "inline_text x"
  shows \<open>renderMarkdown L (inline_code x) = ''<code class="inline-code">'' @ x @ ''</code>''\<close>
proof -
  let ?h = \<open>''<code class="inline-code">'' @ x @ ''</code>''\<close>
  note n = inline_text_chars [OF assms]
  have \<open>plain_text (CHR ''<'' # ''code class="inline-code">'' @ x @ ''</code>'')\<close>
    by (rule plain_wrapped [OF assms]) (simp_all add: is_line_terminator_def)
  then have pl: "plain_text ?h" by simp
  note c = plain_chars [OF pl]
  have i: "replace_all re_fence (fence_replacement L) ?h = ?h"
    "replace_all re_inline_code inline_code_replacement ?h = ?h"
    by (rule replace_all_needs [OF needs_fence c(1)], rule replace_all_needs [OF needs_inline_code c(1)])
  have "fold (\<lambda>stage h. stage h) (markdown_stages L) (inline_code x) =
          fold (\<lambda>stage h. stage h) (drop 2 (markdown_stages L))
            (replace_all re_inline_code inline_code_replacement
               (replace_all re_fence (fence_replacement L) (inline_code x)))"
    by (simp add: markdown_stages_def)
  also have "\<dots> = fold (\<lambda>stage h. stage h) (drop 2 (markdown_stages L)) ?h"
    by (simp only: inline_no_fence [OF n] inline_stage [OF n])
       (simp add: inline_code_replacement_def grp_def)
  also have "\<dots> = fold (\<lambda>stage h. stage h) (drop 2 (markdown_stages L))
            (replace_all re_inline_code inline_code_replacement
               (replace_all re_fence (fence_replacement L) ?h))"
    by (simp only: i)
  also have "\<dots> = fold (\<lambda>stage h. stage h) (markdown_stages L) ?h"
    by (simp add: markdown_stages_def)
  also have "\<dots> = ?h"
    by (rule stages_plain [OF pl])
  finally have f: "fold (\<lambda>stage h. stage h) (markdown_stages L) (inline_code x) = ?h" .
  show ?thesis
    by (simp add: renderMarkdown_def truthy_def f) (simp add: inline_code_def startsWith_def)
qed

lemma inline_pipeline_p000:
  assumes "inline_text x"
  shows "renderMarkdown_p000 (inline_code x) = ''<code>'' @ x @ ''</code>''"
proof -
  let ?h = "''<code>'' @ x @ ''</code>''"
  note n = inline_text_chars [OF assms]
  have "plain_text (CHR ''<'' # ''code>'' @ x @ ''</code>'')"
    by (rule plain_wrapped [OF assms]) (simp_all add: is_line_terminator_def)
  then have pl: "plain_text ?h" by simp
  note c = plain_chars [OF pl]
  have i: "replace_all re_fence fence_replacement_p000 ?h = ?h"
    "replace_all re_inline_code (tag ''code'') ?h = ?h"
    by (rule replace_all_needs [OF needs_fence c(1)], rule replace_all_needs [OF needs_inline_code c(1)])
  have "fold (\<lambda>stage h. stage h) markdown_stages_p000 (inline_code x) =
          fold (\<lambda>stage h. stage h) (drop 2 markdown_stages_p000)
            (replace_all re_inline_code (tag ''code'')
               (replace_all re_fence fence_replacement_p000 (inline_code x)))"
    by (simp add: markdown_stages_p000_def)
  also have "\<dots> = fold (\<lambda>stage h. stage h) (drop 2 markdown_stages_p000) ?h"
    by (simp only: inline_no_fence [OF n] inline_stage [OF n])
       (simp add: tag_def grp_def)
  also have "\<dots> = fold (\<lambda>stage h. stage h) (drop 2 markdown_stages_p000)
            (replace_all re_inline_code (tag ''code'')
               (replace_all re_fence fence_replacement_p000 ?h))"
    by (simp only: i)
  also have "\<dots> = fold (\<lambda>stage h. stage h) markdown_stages_p000 ?h"
    by (simp add: markdown_stages_p000_def)
  also have "\<dots> = ?h"
    by (rule stages_plain_p000 [OF pl])
  finally show ?thesis
    by (simp add: renderMarkdown_p000_def)
qed

section \<open>Escaping of code\<close>




section \<open>Interpolated fields\<close>

lemma sublistI: "ys = ps @ xs @ ss \<Longrightarrow> sublist xs ys"
  by (auto simp: sublist_def)

lemma sublist_before: "sublist xs ys \<Longrightarrow> sublist xs (ys @ zs)"
  by (auto simp: sublist_append)

lemma sublist_after: "sublist xs zs \<Longrightarrow> sublist xs (ys @ zs)"
  by (auto simp: sublist_append)

lemma sublist_in_concat: "x \<in> set xs \<Longrightarrow> sublist t (f x) \<Longrightarrow> sublist t (concat (map f xs))"
  by (induction xs) (auto intro: sublist_before sublist_after)

lemma header_has_title: \<open>sublist (''<h1>'' @ section_title s @ ''</h1>'') (section_header_html s)\<close>
  unfolding section_header_html_def
  by (rule sublistI [where ps = \<open>''\<newline>'' @
        ''            <div class="section-header">\<newline>'' @
        ''                ''\<close>]) simp

lemma header_has_content:
  \<open>sublist (''<p class="section-description">'' @ section_content s @ ''</p>'') (section_header_html s)\<close>
  unfolding section_header_html_def
  by (rule sublistI [where ps = \<open>''\<newline>'' @
        ''            <div class="section-header">\<newline>'' @
        ''                <h1>'' @
        section_title s @
        ''</h1>\<newline>'' @
        ''                ''\<close>]) simp

lemma subsection_has_title:
  \<open>sublist (''<h2>'' @ subsection_title sub @ ''</h2>'') (subsection_html L sub has_next)\<close>
  unfolding subsection_html_def Let_def
  by (rule sublistI [where ps = \<open>''\<newline>'' @
        ''                    <section id="'' @
        createSubsectionId (subsection_title sub) @
        ''" class="subsection">\<newline>'' @
        ''                        ''\<close>]) simp

lemma subsections_have_title:
  \<open>sub \<in> set subs \<Longrightarrow> sublist (''<h2>'' @ subsection_title sub @ ''</h2>'') (subsections_html L subs)\<close>
proof (induction subs)
  case Nil
  then show ?case by simp
next
  case (Cons a subs)
  show ?case
  proof (cases "sub = a")
    case True
    show ?thesis
      unfolding True subsections_html.simps
      by (rule sublist_before) (rule subsection_has_title)
  next
    case False
    with Cons.prems have "sub \<in> set subs" by simp
    then show ?thesis
      unfolding subsections_html.simps
      by (intro sublist_after Cons.IH)
  qed
qed

lemma nav_section_has_title:
  \<open>sublist (''data-section="'' @ section_id s @ ''">'' @ section_title s @ ''</div>'') (nav_section_html s)\<close>
  unfolding nav_section_html_def Let_def
  by (rule sublistI [where ps = \<open>''\<newline>'' @
        ''                <div class="nav-section">\<newline>'' @
        ''                    <div class="nav-item nav-section-title" ''\<close>]) simp

lemma nav_subsection_has_title:
  \<open>sublist (''">'' @ subsection_title sub @ ''</div>'') (nav_subsection_html s sub)\<close>
  unfolding nav_subsection_html_def Let_def
  by (rule sublistI [where ps = \<open>''<div class="nav-item nav-subsection" data-section="'' @
        section_id s @
        ''" data-subsection="'' @
        createSubsectionId (subsection_title sub)\<close>]) simp

lemma nav_section_split:
  \<open>subsections s = Some subs \<Longrightarrow>
   nav_section_html s =
     (''\<newline>'' @
        ''                <div class="nav-section">\<newline>'' @
        ''                    <div class="nav-item nav-section-title" data-section="'' @
        section_id s @
        ''">'' @
        section_title s @
        ''</div>\<newline>'' @
        ''                    <div class="nav-items">\<newline>'' @
        ''                        '') @
     concat (map (nav_subsection_html s) subs) @
     ''\<newline>'' @
        ''                    </div>\<newline>'' @
        ''                </div>\<newline>'' @
        ''            ''\<close>
  by (simp add: nav_section_html_def)

lemma nav_section_has_subsection_title:
  assumes "subsections s = Some subs" and "sub \<in> set subs"
  shows \<open>sublist (''">'' @ subsection_title sub @ ''</div>'') (nav_section_html s)\<close>
proof -
  have \<open>sublist (''">'' @ subsection_title sub @ ''</div>'') (concat (map (nav_subsection_html s) subs))\<close>
    using assms(2) nav_subsection_has_title by (rule sublist_in_concat)
  then show ?thesis
    unfolding nav_section_split [OF assms(1)]
    by (intro sublist_after sublist_before)
qed

lemma section_has_title:
  \<open>sublist (''<h1>'' @ section_title s @ ''</h1>'') (section_html L s)\<close>
  \<open>sublist (''<p class="section-description">'' @ section_content s @ ''</p>'') (section_html L s)\<close>
  unfolding section_html_def
  by (intro sublist_before header_has_title, intro sublist_before header_has_content)

lemma header_p000_has_title:
  \<open>sublist (''<h1>'' @ section_title s @ ''</h1>'') (section_header_html_p000 s)\<close>
  unfolding section_header_html_p000_def
  by (rule sublistI [where ps = \<open>''\<newline>'' @ ''            ''\<close>]) simp

lemma header_p000_has_content:
  \<open>sublist (''<p>'' @ section_content s @ ''</p>'') (section_header_html_p000 s)\<close>
  unfolding section_header_html_p000_def
  by (rule sublistI [where ps = \<open>''\<newline>'' @
        ''            <h1>'' @
        section_title s @
        ''</h1>\<newline>'' @
        ''            ''\<close>]) simp

lemma subsection_p000_has_title:
  \<open>sublist (''<h2>'' @ subsection_title sub @ ''</h2>'') (subsection_html_p000 sub)\<close>
  unfolding subsection_html_p000_def Let_def
  by (rule sublistI [where ps = \<open>''\<newline>'' @
        ''                    <section id="'' @
        createSubsectionId (subsection_title sub) @
        ''">\<newline>'' @
        ''                        ''\<close>]) simp

lemma section_has_subsection_title:
  \<open>subsections s = Some subs \<and> sub \<in> set subs \<longrightarrow>
   sublist (''<h2>'' @ subsection_title sub @ ''</h2>'') (section_html L s) \<and>
   sublist (''<h2>'' @ subsection_title sub @ ''</h2>'') (section_html_p000 s)\<close>
proof (intro impI, elim conjE)
  assume a: "subsections s = Some subs" and b: "sub \<in> set subs"
  have "sublist (''<h2>'' @ subsection_title sub @ ''</h2>'') (subsections_html L subs)"
    using b by (rule subsections_have_title)
  then have "sublist (''<h2>'' @ subsection_title sub @ ''</h2>'')
               (section_header_html s @ subsections_html L subs)"
    by (rule sublist_after)
  then have 1: "sublist (''<h2>'' @ subsection_title sub @ ''</h2>'') (section_html L s)"
    by (simp only: section_html_def a option.case)
  have "sublist (''<h2>'' @ subsection_title sub @ ''</h2>'') (concat (map subsection_html_p000 subs))"
    using b subsection_p000_has_title by (rule sublist_in_concat)
  then have "sublist (''<h2>'' @ subsection_title sub @ ''</h2>'')
               (section_header_html_p000 s @ concat (map subsection_html_p000 subs))"
    by (rule sublist_after)
  then have 2: "sublist (''<h2>'' @ subsection_title sub @ ''</h2>'') (section_html_p000 s)"
    by (simp only: section_html_p000_def a option.case)
  from 1 2 show "sublist (''<h2>'' @ subsection_title sub @ ''</h2>'') (section_html L s) \<and>
   sublist (''<h2>'' @ subsection_title sub @ ''</h2>'') (section_html_p000 s)" ..
qed

lemma section_p000_has_title:
  \<open>sublist (''<h1>'' @ section_title s @ ''</h1>'') (section_html_p000 s)\<close>
  \<open>sublist (''<p>'' @ section_content s @ ''</p>'') (section_html_p000 s)\<close>
  unfolding section_html_p000_def
  by (intro sublist_before header_p000_has_title, intro sublist_before header_p000_has_content)

lemma nav_has_titles:
  \<open>s \<in> set (sections d) \<longrightarrow>
      sublist (''data-section="'' @ section_id s @ ''">'' @ section_title s @ ''</div>'') (navHTML d) \<and>
      (subsections s = Some subs \<and> sub \<in> set subs \<longrightarrow>
         sublist (''">'' @ subsection_title sub @ ''</div>'') (navHTML d))\<close>
proof (intro impI conjI)
  assume a: "s \<in> set (sections d)"
  show \<open>sublist (''data-section="'' @ section_id s @ ''">'' @ section_title s @ ''</div>'') (navHTML d)\<close>
    unfolding navHTML_def using a nav_section_has_title by (rule sublist_in_concat)
  assume b: "subsections s = Some subs \<and> sub \<in> set subs"
  show \<open>sublist (''">'' @ subsection_title sub @ ''</div>'') (navHTML d)\<close>
    unfolding navHTML_def
    using a nav_section_has_subsection_title [OF conjunct1 [OF b] conjunct2 [OF b]]
    by (rule sublist_in_concat)
qed

lemma buildNavigation_markup:
  "docs st = Some d \<and> sidebarNav st \<noteq> None \<longrightarrow> sidebarNav (buildNavigation st) = Some (navHTML d)"
  by (auto simp: buildNavigation_def)

lemma renderSection_p000_markup:
  "docsContent st \<noteq> None \<longrightarrow> docsContent (renderSection_p000 s target st) = Some (section_html_p000 s)"
  by (auto simp: renderSection_p000_def)

lemma renderSection_markup:
  "docsContent st \<noteq> None \<and> (isMobile st \<longrightarrow> docs st \<noteq> None) \<longrightarrow>
     (\<exists>st' mobile. renderSection L s target st = Inr st' \<and>
           docsContent st' = Some (section_html L s @ mobile))"
proof (intro impI, elim conjE)
  assume c: "docsContent st \<noteq> None" and m: "isMobile st \<longrightarrow> docs st \<noteq> None"
  show "\<exists>st' mobile. renderSection L s target st = Inr st' \<and>
           docsContent st' = Some (section_html L s @ mobile)"
  proof (cases "isMobile st")
    case True
    with m obtain d where "docs st = Some d" by auto
    from renderSection_ok [OF this c, of L s target] show ?thesis by auto
  next
    case False
    with c have "renderSection L s target st =
           Inr (st\<lparr>docsContent := Some (section_html L s @ []),
                   scrollTarget := (if truthy_opt target then target else None)\<rparr>)"
      by (auto simp: renderSection_def)
    then show ?thesis by auto
  qed
qed

lemma highlightCode_other_imp:
  "language \<notin> {''lua'', ''javascript'', ''js''} \<longrightarrow> highlightCode L code language = escapeHtml code"
  using highlightCode_other by blast

lemma inline_verbatim:
  \<open>ascii x \<and> inline_text x \<longrightarrow>
      renderMarkdown L (inline_code x) = ''<code class="inline-code">'' @ x @ ''</code>'' \<and>
      renderMarkdown_p000 (inline_code x) = ''<code>'' @ x @ ''</code>''\<close>
  using inline_pipeline [of x L] inline_pipeline_p000 [of x] by blast

lemma plain_verbatim:
  "ascii t \<and> plain_text t \<and> \<not> startsWith t ''<'' \<longrightarrow>
      renderMarkdown L t = ''<p>'' @ t @ ''</p>'' \<and> renderMarkdown_p000 t = t"
proof (intro impI, elim conjE)
  assume p: "plain_text t" and n: "\<not> startsWith t ''<''"
  from renderMarkdown_plain_text [OF p, of L] stages_plain_p000 [OF p] n
  show "renderMarkdown L t = ''<p>'' @ t @ ''</p>'' \<and> renderMarkdown_p000 t = t"
    by (simp add: renderMarkdown_p000_def)
qed

text \<open>
  Claim C10. Escaping is what the fence callbacks do and nothing else does: escaped
  text holds no \<^verbatim>\<open><\<close> and no \<^verbatim>\<open>>\<close>; the fence callback of either version puts
  the escaped, trimmed code into its code-block markup (in \<^verbatim>\<open>script.js\<close> through
  \<^verbatim>\<open>highlightCode\<close>, which returns the escaped code for every language it does
  not highlight); an inline code span and plain ASCII text come out of
  \<^verbatim>\<open>renderMarkdown\<close> with their characters as they are. And the markup that
  \<open>renderSection\<close> assigns (both versions) contains the section title, the section
  prose and every subsection title exactly as they are in the document, and so
  does the markup of \<open>buildNavigation\<close> for the titles: no character of these
  fields is escaped.
\<close>

theorem fields_interpolated_verbatim:
  \<open>CHR ''<'' \<notin> set (escapeHtml y) \<and> CHR ''>'' \<notin> set (escapeHtml y) \<and>
   fence_replacement L m g =
     (let language = (case map_of g 1 of None \<Rightarrow> ''text'' | Some lang \<Rightarrow> language_of lang)
      in code_block language (highlightCode L (trim (grp g 2)) language)) \<and>
   (language \<notin> {''lua'', ''javascript'', ''js''} \<longrightarrow> highlightCode L code language = escapeHtml code) \<and>
   fence_replacement_p000 m g =
     code_block_p000 (case map_of g 1 of None \<Rightarrow> ''Code'' | Some lang \<Rightarrow> language_of_p000 lang)
       (escapeHtml (trim (grp g 2))) \<and>
   (ascii x \<and> inline_text x \<longrightarrow>
      renderMarkdown L (inline_code x) = ''<code class="inline-code">'' @ x @ ''</code>'' \<and>
      renderMarkdown_p000 (inline_code x) = ''<code>'' @ x @ ''</code>'') \<and>
   (ascii t \<and> plain_text t \<and> \<not> startsWith t ''<'' \<longrightarrow>
      renderMarkdown L t = ''<p>'' @ t @ ''</p>'' \<and> renderMarkdown_p000 t = t) \<and>
   (docsContent st \<noteq> None \<and> (isMobile st \<longrightarrow> docs st \<noteq> None) \<longrightarrow>
      (\<exists>st' mobile. renderSection L s target st = Inr st' \<and>
         docsContent st' = Some (section_html L s @ mobile))) \<and>
   (docsContent st \<noteq> None \<longrightarrow>
      docsContent (renderSection_p000 s target st) = Some (section_html_p000 s)) \<and>
   (docs st = Some d \<and> sidebarNav st \<noteq> None \<longrightarrow>
      sidebarNav (buildNavigation st) = Some (navHTML d)) \<and>
   sublist (''<h1>'' @ section_title s @ ''</h1>'') (section_html L s) \<and>
   sublist (''<p class="section-description">'' @ section_content s @ ''</p>'') (section_html L s) \<and>
   sublist (''<h1>'' @ section_title s @ ''</h1>'') (section_html_p000 s) \<and>
   sublist (''<p>'' @ section_content s @ ''</p>'') (section_html_p000 s) \<and>
   (subsections s = Some subs \<and> sub \<in> set subs \<longrightarrow>
      sublist (''<h2>'' @ subsection_title sub @ ''</h2>'') (section_html L s) \<and>
      sublist (''<h2>'' @ subsection_title sub @ ''</h2>'') (section_html_p000 s)) \<and>
   (s \<in> set (sections d) \<longrightarrow>
      sublist (''data-section="'' @ section_id s @ ''">'' @ section_title s @ ''</div>'') (navHTML d) \<and>
      (subsections s = Some subs \<and> sub \<in> set subs \<longrightarrow>
         sublist (''">'' @ subsection_title sub @ ''</div>'') (navHTML d)))\<close>
  by (intro conjI)
     (rule escapeHtml_no_markup fence_replacement_block highlightCode_other_imp
        fence_replacement_p000_block inline_verbatim plain_verbatim renderSection_markup
        renderSection_p000_markup buildNavigation_markup section_has_title section_p000_has_title
        section_has_subsection_title nav_has_titles)+

theorem fields_interpolated_verbatim_witness:
  \<open>''text'' \<notin> {''lua'', ''javascript'', ''js''} \<and> ascii ''a<b>'' \<and> inline_text ''a<b>'' \<and>
   ascii ''Tom & Jerry > all'' \<and> plain_text ''Tom & Jerry > all'' \<and>
   \<not> startsWith ''Tom & Jerry > all'' ''<'' \<and>
   docs markup_page = Some markup_docs \<and> docsContent markup_page \<noteq> None \<and>
   sidebarNav markup_page \<noteq> None \<and>
   hd (sections markup_docs) \<in> set (sections markup_docs) \<and>
   subsections (hd (sections markup_docs)) =
     Some [\<lparr>subsection_title = ''a<b'', subsection_content = ''go''\<rparr>] \<and>
   CHR ''<'' \<notin> set (escapeHtml ''<i>'') \<and>
   highlightCode example_operands ''<i>'' ''text'' = ''&lt;i&gt;'' \<and>
   renderMarkdown example_operands (inline_code ''a<b>'') = ''<code class="inline-code">a<b></code>'' \<and>
   renderMarkdown_p000 (inline_code ''a<b>'') = ''<code>a<b></code>'' \<and>
   renderMarkdown example_operands ''Tom & Jerry > all'' = ''<p>Tom & Jerry > all</p>'' \<and>
   renderMarkdown_p000 ''Tom & Jerry > all'' = ''Tom & Jerry > all'' \<and>
   (\<exists>st' mobile. renderSection example_operands (hd (sections markup_docs)) None markup_page = Inr st' \<and>
      docsContent st' = Some (section_html example_operands (hd (sections markup_docs)) @ mobile)) \<and>
   docsContent (renderSection_p000 (hd (sections markup_docs)) None markup_page) =
     Some (section_html_p000 (hd (sections markup_docs))) \<and>
   sidebarNav (buildNavigation markup_page) = Some (navHTML markup_docs) \<and>
   sublist ''<h1><i>Intro</i></h1>'' (section_html example_operands (hd (sections markup_docs))) \<and>
   sublist ''<p class="section-description"><script>x</script></p>''
     (section_html example_operands (hd (sections markup_docs))) \<and>
   sublist ''<h2>a<b</h2>'' (section_html example_operands (hd (sections markup_docs))) \<and>
   sublist ''<h1><i>Intro</i></h1>'' (section_html_p000 (hd (sections markup_docs))) \<and>
   sublist ''<p><script>x</script></p>'' (section_html_p000 (hd (sections markup_docs))) \<and>
   sublist ''<h2>a<b</h2>'' (section_html_p000 (hd (sections markup_docs))) \<and>
   sublist ''data-section="intro"><i>Intro</i></div>'' (navHTML markup_docs) \<and>
   sublist ''">a<b</div>'' (navHTML markup_docs)\<close>
proof -
  let ?s = "hd (sections markup_docs)"
  let ?sub = "\<lparr>subsection_title = ''a<b'', subsection_content = ''go''\<rparr>"
  have h: "''text'' \<notin> {''lua'', ''javascript'', ''js''}" "ascii ''a<b>''" "inline_text ''a<b>''"
    "ascii ''Tom & Jerry > all''" "plain_text ''Tom & Jerry > all''"
    "\<not> startsWith ''Tom & Jerry > all'' ''<''"
    by code_simp+
  have a: "docs markup_page = Some markup_docs" "docsContent markup_page \<noteq> None"
    "sidebarNav markup_page \<noteq> None"
    by (simp_all add: markup_page_def blank_page_def)
  have b: "?s \<in> set (sections markup_docs)" by (simp add: markup_docs_def)
  have c: "subsections ?s = Some [?sub]" by (simp add: markup_docs_def)
  have d: "?sub \<in> set [?sub]" by simp
  have f: "section_title ?s = ''<i>Intro</i>''" "section_content ?s = ''<script>x</script>''"
    "section_id ?s = ''intro''"
    by (simp_all add: markup_docs_def)
  have e: "escapeHtml ''<i>'' = ''&lt;i&gt;''" by code_simp
  have i: "isMobile markup_page \<longrightarrow> docs markup_page \<noteq> None"
    by (simp add: markup_page_def)
  note t = fields_interpolated_verbatim [where y = "''<i>''" and L = example_operands and m = "[]"
      and g = "[]" and language = "''text''" and code = "''<i>''" and x = "''a<b>''"
      and t = "''Tom & Jerry > all''" and st = markup_page and d = markup_docs and s = ?s
      and target = None and subs = "[?sub]" and sub = ?sub]
  from t h a b c d i show ?thesis
    unfolding f e by simp
qed

end
